theory Spec2Isabelle
  imports Complex_Main
begin

section \<open>JavaScript values and control flow\<close>

text \<open>
  A thrown JavaScript value is either an instance of \<open>Error\<close> (the subclasses
  \<open>TypeError\<close>, \<open>ReferenceError\<close> and \<open>SyntaxError\<close> are kept apart, each with its
  message) or some other value, for which \<open>instanceof Error\<close> is false.
  A synchronous function that may throw returns \<open>js_exn + 'a\<close>.
\<close>

datatype js_exn =
    Error string
  | TypeError string
  | ReferenceError string
  | SyntaxError string
  | NonError

fun instanceof_Error :: "js_exn \<Rightarrow> bool" where
  "instanceof_Error NonError = False"
| "instanceof_Error _ = True"

fun message :: "js_exn \<Rightarrow> string" where
  "message (Error m) = m"
| "message (TypeError m) = m"
| "message (ReferenceError m) = m"
| "message (SyntaxError m) = m"
| "message NonError = []"

text \<open>
  An \<open>async\<close> function ends in one of three ways: its promise is fulfilled, it is
  rejected, or it never settles (an awaited promise that nobody resolves).
\<close>

datatype 'a outcome = Fulfilled 'a | Rejected js_exn | Pending

text \<open>
  \<open>String.prototype.trim\<close>: strings are lists of \<open>char\<close>; the white space and line
  terminators of ECMAScript that fit in one \<open>char\<close> are tab, line feed, vertical tab,
  form feed, carriage return, space and the no-break space.
\<close>

definition is_js_whitespace :: "char \<Rightarrow> bool" where
  "is_js_whitespace c \<longleftrightarrow>
     c \<in> {CHR 0x09, CHR 0x0A, CHR 0x0B, CHR 0x0C, CHR 0x0D, CHR 0x20, CHR 0xA0}"

definition trim :: "string \<Rightarrow> string" where
  "trim s = rev (dropWhile is_js_whitespace (rev (dropWhile is_js_whitespace s)))"

text \<open>
  \<open>s.split(',')\<close> cuts at every comma; \<open>[1]\<close> of the result is \<open>undefined\<close> (here
  \<open>None\<close>) when the string has no comma.
\<close>

fun split_on :: "char \<Rightarrow> string \<Rightarrow> string list" where
  "split_on c [] = [[]]"
| "split_on c (x # xs) =
     (if x = c then [] # split_on c xs
      else (case split_on c xs of [] \<Rightarrow> [[x]] | p # ps \<Rightarrow> (x # p) # ps))"

definition index_opt :: "'a list \<Rightarrow> nat \<Rightarrow> 'a option" where
  "index_opt xs i = (if i < length xs then Some (xs ! i) else None)"

definition truthy :: "string \<Rightarrow> bool" where
  "truthy s \<longleftrightarrow> s \<noteq> []"

section \<open>The quiz generator hook (useQuizGenerator.ts)\<close>

record QuizQuestion =
  question :: string
  options :: "string list"
  correctAnswer :: string
  explanation :: string

record Quiz =
  topic :: string
  questions :: "QuizQuestion list"

text \<open>
  The state of the hook. \<open>setCurrentQuiz\<close> stores whatever \<open>JSON.parse\<close> returned, so
  the type of the stored value is a parameter: the declared type \<open>Quiz\<close> where the quiz is
  read, the parsed JSON value where parsing is studied.
\<close>

record 'q quiz_hook =
  isGenerating :: bool
  currentQuiz :: "'q option"
  quiz_error :: "string option"

datatype difficulty = easy | medium | hard

fun difficulty_text :: "difficulty \<Rightarrow> string" where
  "difficulty_text easy = ''easy''"
| "difficulty_text medium = ''medium''"
| "difficulty_text hard = ''hard''"

definition nl :: string where
  "nl = [CHR 0x0A]"

definition dq :: string where
  "dq = [CHR 0x22]"

definition quiz_prompt :: "difficulty \<Rightarrow> string \<Rightarrow> string" where
  "quiz_prompt d t =
     ''Generate a '' @ difficulty_text d @ '' level quiz about '' @ dq @ t @ dq
       @ '' with 5 multiple choice questions.'' @ nl
     @ ''      Format the response as a JSON object with the following structure:'' @ nl
     @ ''      {'' @ nl
     @ ''        '' @ dq @ ''topic'' @ dq @ '': '' @ dq @ ''the quiz topic'' @ dq @ '','' @ nl
     @ ''        '' @ dq @ ''questions'' @ dq @ '': ['' @ nl
     @ ''          {'' @ nl
     @ ''            '' @ dq @ ''question'' @ dq @ '': '' @ dq @ ''the question text'' @ dq @ '','' @ nl
     @ ''            '' @ dq @ ''options'' @ dq @ '': ['' @ dq @ ''option1'' @ dq @ '', ''
         @ dq @ ''option2'' @ dq @ '', '' @ dq @ ''option3'' @ dq @ '', ''
         @ dq @ ''option4'' @ dq @ ''],'' @ nl
     @ ''            '' @ dq @ ''correctAnswer'' @ dq @ '': '' @ dq @ ''the correct option'' @ dq @ '','' @ nl
     @ ''            '' @ dq @ ''explanation'' @ dq @ '': '' @ dq
         @ ''explanation why this is correct'' @ dq @ nl
     @ ''          }'' @ nl
     @ ''        ]'' @ nl
     @ ''      }''"

text \<open>
  \<open>text.match(/\{[\s\S]*\}/)\<close>: the match starts at the first opening brace and, the
  star being greedy over every character, ends at the last closing brace after it;
  there is no match when no closing brace follows the first opening brace.
\<close>

definition jsonMatch :: "string \<Rightarrow> string option" where
  "jsonMatch t =
     (case dropWhile (\<lambda>c. c \<noteq> CHR ''{'') t of
        [] \<Rightarrow> None
      | b # rest \<Rightarrow>
          (case dropWhile (\<lambda>c. c \<noteq> CHR ''}'') (rev rest) of
             [] \<Rightarrow> None
           | r \<Rightarrow> Some (b # rev r)))"

text \<open>
  The body of the \<open>try\<close> block of \<open>generateQuiz\<close>. The generative model and
  \<open>JSON.parse\<close> belong to the platform and are parameters: \<open>generateContent\<close> gives the
  text of the model's reply to a prompt or the exception of the request, \<open>JSON_parse\<close>
  the parsed value or the exception it throws.
\<close>

definition generateQuiz_try ::
  "(string \<Rightarrow> js_exn + string) \<Rightarrow> (string \<Rightarrow> js_exn + 'q) \<Rightarrow> string \<Rightarrow> difficulty
     \<Rightarrow> 'q quiz_hook \<Rightarrow> (js_exn + 'q) \<times> 'q quiz_hook" where
  "generateQuiz_try generateContent JSON_parse t d h =
     (let h1 = h\<lparr>isGenerating := True\<rparr>;
          h2 = h1\<lparr>quiz_error := None\<rparr>
      in case generateContent (quiz_prompt d t) of
           Inl e \<Rightarrow> (Inl e, h2)
         | Inr reply \<Rightarrow>
             (case jsonMatch reply of
                None \<Rightarrow> (Inl (Error ''Invalid quiz format generated''), h2)
              | Some m \<Rightarrow>
                  (case JSON_parse m of
                     Inl e \<Rightarrow> (Inl e, h2)
                   | Inr quiz \<Rightarrow> (Inr quiz, h2\<lparr>currentQuiz := Some quiz\<rparr>))))"

text \<open>
  \<open>generateQuiz\<close> with its \<open>catch\<close> and \<open>finally\<close>: the result is what the promise
  settles with, \<open>Inl\<close> if it were rejected, \<open>Inr None\<close> for \<open>null\<close>.
\<close>

definition generateQuiz ::
  "(string \<Rightarrow> js_exn + string) \<Rightarrow> (string \<Rightarrow> js_exn + 'q) \<Rightarrow> string \<Rightarrow> difficulty
     \<Rightarrow> 'q quiz_hook \<Rightarrow> (js_exn + 'q option) \<times> 'q quiz_hook" where
  "generateQuiz generateContent JSON_parse t d h =
     (case generateQuiz_try generateContent JSON_parse t d h of
        (Inr quiz, h') \<Rightarrow> (Inr (Some quiz), h'\<lparr>isGenerating := False\<rparr>)
      | (Inl err, h') \<Rightarrow>
          (Inr None,
           h'\<lparr>quiz_error := Some ''Failed to generate quiz. Please try again.'',
              isGenerating := False\<rparr>))"

text \<open>
  \<open>checkAnswer\<close> and \<open>getExplanation\<close>. Reading \<open>questions[questionIndex]\<close> outside the
  array gives \<open>undefined\<close>, and reading a property of \<open>undefined\<close> throws a
  \<open>TypeError\<close> (the wording of its message is the engine's).
\<close>

definition undefined_property :: "string \<Rightarrow> js_exn" where
  "undefined_property p = TypeError (''Cannot read properties of undefined (reading '' @ p @ '')'')"

definition question_at :: "Quiz \<Rightarrow> int \<Rightarrow> QuizQuestion option" where
  "question_at q i =
     (if 0 \<le> i \<and> i < int (length (questions q)) then Some (questions q ! nat i) else None)"

definition checkAnswer :: "Quiz option \<Rightarrow> int \<Rightarrow> string \<Rightarrow> js_exn + bool" where
  "checkAnswer quiz questionIndex selected =
     (case quiz of
        None \<Rightarrow> Inr False
      | Some q \<Rightarrow>
          (case question_at q questionIndex of
             None \<Rightarrow> Inl (undefined_property ''correctAnswer'')
           | Some qq \<Rightarrow> Inr (correctAnswer qq = selected)))"

definition getExplanation :: "Quiz option \<Rightarrow> int \<Rightarrow> js_exn + string" where
  "getExplanation quiz questionIndex =
     (case quiz of
        None \<Rightarrow> Inr []
      | Some q \<Rightarrow>
          (case question_at q questionIndex of
             None \<Rightarrow> Inl (undefined_property ''explanation'')
           | Some qq \<Rightarrow> Inr (explanation qq)))"

text \<open>
  The value \<open>JSON.parse\<close> returns, and the schema the prompt asks for, in the words of
  the specification: a topic and 5 questions, each with a question text, 4 options, one
  correct answer and one explanation.
\<close>

datatype json =
    JNull
  | JBool bool
  | JNumber rat
  | JString string
  | JArray "json list"
  | JObject "(string \<times> json) list"

fun field :: "json \<Rightarrow> string \<Rightarrow> json option" where
  "field (JObject kvs) k = map_of kvs k"
| "field _ k = None"

fun is_JString :: "json \<Rightarrow> bool" where
  "is_JString (JString s) = True"
| "is_JString _ = False"

fun is_string_field :: "json \<Rightarrow> string \<Rightarrow> bool" where
  "is_string_field j k = (case field j k of Some v \<Rightarrow> is_JString v | None \<Rightarrow> False)"

fun array_field :: "json \<Rightarrow> string \<Rightarrow> json list option" where
  "array_field j k = (case field j k of Some (JArray vs) \<Rightarrow> Some vs | _ \<Rightarrow> None)"

definition spec_question_schema :: "json \<Rightarrow> bool" where
  "spec_question_schema j \<longleftrightarrow>
     is_string_field j ''question''
     \<and> (case array_field j ''options'' of
          Some os \<Rightarrow> length os = 4 \<and> list_all is_JString os
        | None \<Rightarrow> False)
     \<and> is_string_field j ''correctAnswer''
     \<and> is_string_field j ''explanation''"

definition spec_quiz_schema :: "json \<Rightarrow> bool" where
  "spec_quiz_schema j \<longleftrightarrow>
     is_string_field j ''topic''
     \<and> (case array_field j ''questions'' of
          Some qs \<Rightarrow> length qs = 5 \<and> list_all spec_question_schema qs
        | None \<Rightarrow> False)"

text \<open>
  The values of \<open>JSON.parse\<close> on two texts, as a table, for evaluating
  \<open>generateQuiz\<close> on concrete replies: the empty object, and an object that has a
  topic and no questions. The table has no other entry and answers every other text
  with a \<open>SyntaxError\<close>; it is used below on one such text only, \<open>{quiz}\<close>, which
  \<open>JSON.parse\<close> rejects too.
\<close>

definition JSON_parse_table :: "string \<Rightarrow> js_exn + json" where
  "JSON_parse_table s =
     (if s = ''{}'' then Inr (JObject [])
      else if s = ''{'' @ dq @ ''topic'' @ dq @ '':'' @ dq @ ''Photosynthesis'' @ dq @ ''}''
        then Inr (JObject [(''topic'', JString ''Photosynthesis'')])
      else Inl (SyntaxError ''outside the table''))"

section \<open>The quiz view (QuizSection)\<close>


definition initial_quiz_hook :: "'q quiz_hook" where
  "initial_quiz_hook = \<lparr>isGenerating = False, currentQuiz = None, quiz_error = None\<rparr>"















section \<open>The state of the page\<close>

datatype kind = Question | Answer

record InteractionRecord =
  type :: kind
  record_text :: string
  timestamp :: nat

record inlineData =
  data :: "string option"
  mimeType :: string

text \<open>
  A video element, as far as the code reads it: its \<open>readyState\<close> and the frame it
  shows. The third kind of image input the signature allows is an image element.
\<close>

record video =
  readyState :: nat
  frame :: nat

datatype imageInput = InlineData inlineData | VideoElement video | ImageElement

datatype request = TextRequest string | VisionRequest inlineData string

datatype worker_call =
    CreateWorker
  | Load
  | LoadLanguage string
  | Initialize string
  | Recognize
  | Terminate

text \<open>
  The state variables of \<open>App\<close> and of the hooks it uses (\<open>useVoiceRecognition\<close>,
  \<open>useOCRProcessor\<close>, \<open>useAIResponse\<close>), the clock that \<open>new Date()\<close> reads, and a log
  of what the page did to the outside: the calls of \<open>processAIResponse\<close>, the requests
  submitted to the generative models, the texts handed to speech synthesis and the calls
  made on OCR workers.
\<close>

record world =
  conversationHistory :: "InteractionRecord list"
  response :: string
  app_error :: "string option"
  webcam_video :: "video option"
  uploadedImage :: "string option"
  showAnalyzeButton :: bool
  isLocalLoading :: bool
  transcript :: string
  isProcessing :: bool
  progress :: nat
  ocr_error :: "string option"
  enableVoice :: bool
  voiceOutput :: bool
  isSpeaking :: bool
  isLoading :: bool
  ai_error :: "string option"
  now :: nat
  generate_calls :: "(string \<times> imageInput option) list"
  submissions :: "request list"
  spoken :: "string list"
  worker_calls :: "worker_call list"

text \<open>Sequencing of statements that may throw: the first exception ends the block.\<close>

definition bind_exn ::
  "(js_exn + 'a) \<times> 's \<Rightarrow> ('a \<Rightarrow> 's \<Rightarrow> (js_exn + 'b) \<times> 's) \<Rightarrow> (js_exn + 'b) \<times> 's" where
  "bind_exn m f = (case m of (Inl e, s) \<Rightarrow> (Inl e, s) | (Inr a, s) \<Rightarrow> f a s)"

section \<open>The OCR hook (useOCRProcessor.ts)\<close>

record OCRResult =
  "text" :: string
  confidence :: rat

text \<open>
  The tesseract worker is the platform's. Each of its asynchronous steps is given by
  the status messages it hands to \<open>worker.logger\<close> while it runs and by how its promise
  settles. \<open>createWorker\<close> runs before the logger is installed.
\<close>

record 'a stage =
  statuses :: "string list"
  settles :: "js_exn + 'a"

record recognized =
  data_text :: string
  data_confidence :: rat

record 'f tesseract =
  createWorker :: "js_exn + unit"
  load :: "unit stage"
  loadLanguage :: "string \<Rightarrow> unit stage"
  initialize :: "string \<Rightarrow> unit stage"
  recognize :: "'f \<Rightarrow> recognized stage"
  terminate :: "unit stage"

definition logger :: "world \<Rightarrow> string \<Rightarrow> world" where
  "logger w status =
     (let w1 = (if status = ''loading tesseract core'' then w\<lparr>progress := 25\<rparr> else w);
          w2 = (if status = ''loading language traineddata'' then w1\<lparr>progress := 50\<rparr> else w1);
          w3 = (if status = ''initializing api'' then w2\<lparr>progress := 75\<rparr> else w2)
      in if status = ''recognizing text'' then w3\<lparr>progress := 90\<rparr> else w3)"

definition await_stage :: "worker_call \<Rightarrow> 'a stage \<Rightarrow> world \<Rightarrow> (js_exn + 'a) \<times> world" where
  "await_stage c st w =
     (settles st, foldl logger (w\<lparr>worker_calls := worker_calls w @ [c]\<rparr>) (statuses st))"

definition no_text_message :: string where
  "no_text_message = ''No text was detected in the image. Please try a clearer image.''"

definition processImage_try :: "'f tesseract \<Rightarrow> 'f \<Rightarrow> world \<Rightarrow> (js_exn + OCRResult) \<times> world" where
  "processImage_try tw imageFile w0 =
     (let w1 = w0\<lparr>isProcessing := True\<rparr>;
          w2 = w1\<lparr>ocr_error := None\<rparr>;
          w3 = w2\<lparr>progress := 0\<rparr>
      in
      bind_exn (createWorker tw, w3\<lparr>worker_calls := worker_calls w3 @ [CreateWorker]\<rparr>) (\<lambda>_ w.
      bind_exn (await_stage Load (load tw) w) (\<lambda>_ w.
      bind_exn (await_stage (LoadLanguage ''eng'') (loadLanguage tw ''eng'') w) (\<lambda>_ w.
      bind_exn (await_stage (Initialize ''eng'') (initialize tw ''eng'') w) (\<lambda>_ w.
      bind_exn (await_stage Recognize (recognize tw imageFile) w) (\<lambda>d w.
      bind_exn (await_stage Terminate (terminate tw) w) (\<lambda>_ w.
        (let w' = w\<lparr>progress := 100\<rparr>
         in if \<not> truthy (trim (data_text d)) then (Inl (Error no_text_message), w')
            else (Inr \<lparr>text = trim (data_text d), confidence = data_confidence d\<rparr>, w')))))))))"

text \<open>
  \<open>processImage\<close> with its \<open>catch\<close> and \<open>finally\<close>: the result is what the promise
  settles with, \<open>Inl\<close> if it were rejected, \<open>Inr None\<close> for \<open>null\<close>.
\<close>

definition processImage ::
  "'f tesseract \<Rightarrow> 'f \<Rightarrow> world \<Rightarrow> (js_exn + OCRResult option) \<times> world" where
  "processImage tw imageFile w0 =
     (case processImage_try tw imageFile w0 of
        (Inr r, w) \<Rightarrow> (Inr (Some r), w\<lparr>isProcessing := False\<rparr>)
      | (Inl err, w) \<Rightarrow>
          (Inr None,
           w\<lparr>ocr_error :=
                Some (if instanceof_Error err then message err
                      else ''Failed to process handwritten text. Please try again.''),
             isProcessing := False\<rparr>))"

section \<open>The response generator hook (useAIResponse)\<close>

text \<open>
  The browser and the generative models are the platform's: whether a 2d context can be
  had, whether the \<open>loadeddata\<close> event of a video that is not ready ever fires, the
  encoder behind \<open>canvas.toDataURL\<close>, the replies of the vision and the text model,
  the time a request takes, and whether speech synthesis throws.
\<close>

record canvas =
  width :: nat
  height :: nat
  drawn :: "(nat \<times> nat \<times> nat \<times> nat \<times> nat) option"

record ai_env =
  getContext_2d :: bool
  loadeddata_fires :: bool
  toDataURL :: "canvas \<Rightarrow> string \<Rightarrow> rat \<Rightarrow> string"
  vision_generateContent :: "inlineData \<Rightarrow> string \<Rightarrow> js_exn + string"
  text_generateContent :: "string \<Rightarrow> js_exn + string"
  latency :: nat
  speak_throws :: bool

definition speakResponse :: "ai_env \<Rightarrow> string \<Rightarrow> world \<Rightarrow> world" where
  "speakResponse env t w =
     (if \<not> voiceOutput w \<or> \<not> enableVoice w \<or> isSpeaking w then w
      else if speak_throws env then w\<lparr>ai_error := Some ''Failed to speak response''\<rparr>
      else w\<lparr>spoken := spoken w @ [t]\<rparr>)"

text \<open>
  The video branch: a canvas of 640 by 480, the frame drawn over all of it, and the
  part of the JPEG data URL (quality 0.8) after its first comma. The promise that waits
  for \<open>loadeddata\<close> never settles when the event does not fire.
\<close>

definition drawImage :: "video \<Rightarrow> nat \<Rightarrow> nat \<Rightarrow> nat \<Rightarrow> nat \<Rightarrow> canvas \<Rightarrow> canvas" where
  "drawImage v x y w h c = c\<lparr>drawn := Some (frame v, x, y, w, h)\<rparr>"

definition video_imageData :: "ai_env \<Rightarrow> video \<Rightarrow> inlineData outcome" where
  "video_imageData env v =
     (let c0 = \<lparr>width = 300, height = 150, drawn = None\<rparr>;
          c1 = c0\<lparr>width := 640\<rparr>;
          c2 = c1\<lparr>height := 480\<rparr>
      in if \<not> getContext_2d env then Rejected (Error ''Canvas context not available'')
         else if readyState v < 2 \<and> \<not> loadeddata_fires env then Pending
         else
           (let c3 = drawImage v 0 0 (width c2) (height c2) c2;
                base64Data = index_opt (split_on CHR '','' (toDataURL env c3 ''image/jpeg'' (8 / 10))) 1
            in Fulfilled \<lparr>data = base64Data, mimeType = ''image/jpeg''\<rparr>))"

definition imageData_of :: "ai_env \<Rightarrow> imageInput \<Rightarrow> inlineData outcome" where
  "imageData_of env i =
     (case i of
        InlineData d \<Rightarrow> Fulfilled d
      | VideoElement v \<Rightarrow> video_imageData env v
      | ImageElement \<Rightarrow> Rejected (Error ''Invalid image input''))"

definition or_default :: "string \<Rightarrow> string \<Rightarrow> string" where
  "or_default s d = (if truthy s then s else d)"

text \<open>
  The inner \<open>try\<close> of the image branch: every exception in it is replaced by
  \<open>Failed to analyze image\<close>.
\<close>

definition vision_text :: "ai_env \<Rightarrow> string \<Rightarrow> imageInput \<Rightarrow> world \<Rightarrow> string outcome \<times> world" where
  "vision_text env prompt i w =
     (case imageData_of env i of
        Pending \<Rightarrow> (Pending, w)
      | Rejected e \<Rightarrow> (Rejected (Error ''Failed to analyze image''), w)
      | Fulfilled d \<Rightarrow>
          (let q = or_default prompt ''What's in this image?'';
               w1 = w\<lparr>submissions := submissions w @ [VisionRequest d q]\<rparr>;
               w2 = w1\<lparr>now := now w1 + latency env\<rparr>
           in case vision_generateContent env d q of
                Inl e \<Rightarrow> (Rejected (Error ''Failed to analyze image''), w2)
              | Inr t \<Rightarrow> (Fulfilled t, w2)))"

definition plain_text :: "ai_env \<Rightarrow> string \<Rightarrow> world \<Rightarrow> string outcome \<times> world" where
  "plain_text env prompt w =
     (let w1 = w\<lparr>submissions := submissions w @ [TextRequest prompt]\<rparr>;
          w2 = w1\<lparr>now := now w1 + latency env\<rparr>
      in case text_generateContent env prompt of
           Inl e \<Rightarrow> (Rejected e, w2)
         | Inr t \<Rightarrow> (Fulfilled t, w2))"

text \<open>
  \<open>processAIResponse\<close>: the result is the \<open>text\<close> of the object it returns. The outer
  \<open>catch\<close> rethrows; \<open>finally\<close> runs when the function settles, not while it is pending.
\<close>

definition processAIResponse ::
  "ai_env \<Rightarrow> string \<Rightarrow> imageInput option \<Rightarrow> world \<Rightarrow> string outcome \<times> world" where
  "processAIResponse env prompt imageInput w0 =
     (let w1 = w0\<lparr>generate_calls := generate_calls w0 @ [(prompt, imageInput)]\<rparr>;
          w2 = w1\<lparr>isLoading := True\<rparr>;
          w3 = w2\<lparr>ai_error := None\<rparr>
      in case (case imageInput of
                 Some i \<Rightarrow> vision_text env prompt i w3
               | None \<Rightarrow> plain_text env prompt w3) of
           (Pending, w) \<Rightarrow> (Pending, w)
         | (Rejected e, w) \<Rightarrow> (Rejected e, w\<lparr>isLoading := False\<rparr>)
         | (Fulfilled t, w) \<Rightarrow>
             (let w' = (if truthy t \<and> enableVoice w then speakResponse env t w else w)
              in (Fulfilled t, w'\<lparr>isLoading := False\<rparr>)))"

section \<open>The session orchestrator (App.tsx)\<close>

definition voice_placeholder :: string where
  "voice_placeholder = ''Speak to ask a question...''"

definition camera_placeholder :: string where
  "camera_placeholder = ''Enable camera to analyze images''"

definition addToHistory :: "kind \<Rightarrow> string \<Rightarrow> world \<Rightarrow> world" where
  "addToHistory k t w =
     w\<lparr>conversationHistory :=
         conversationHistory w @ [\<lparr>type = k, record_text = t, timestamp = now w\<rparr>]\<rparr>"

definition resetTranscript :: "world \<Rightarrow> world" where
  "resetTranscript w = w\<lparr>transcript := []\<rparr>"

definition clearHistory :: "world \<Rightarrow> world" where
  "clearHistory w = resetTranscript (w\<lparr>conversationHistory := []\<rparr>\<lparr>response := []\<rparr>)"

text \<open>
  \<open>App.tsx\<close> calls \<open>setError\<close> in two handlers without declaring it (it takes only
  \<open>error\<close> from \<open>useAIResponse\<close>), so there the call throws a \<open>ReferenceError\<close>; the
  other copy of the component declares it with \<open>useState\<close>. The flag says which.
\<close>

definition setError :: "bool \<Rightarrow> string option \<Rightarrow> world \<Rightarrow> (js_exn + unit) \<times> world" where
  "setError declared v w =
     (if declared then (Inr (), w\<lparr>app_error := v\<rparr>)
      else (Inl (ReferenceError ''setError is not defined''), w))"

definition answer_received :: "string \<Rightarrow> bool \<Rightarrow> world \<Rightarrow> world" where
  "answer_received t reset w =
     (if truthy t
      then (let w1 = w\<lparr>response := t\<rparr>;
                w2 = addToHistory Answer t w1
            in if reset then resetTranscript w2 else w2)
      else w)"

definition handleAnalyzeImage :: "ai_env \<Rightarrow> world \<Rightarrow> unit outcome \<times> world" where
  "handleAnalyzeImage env w0 =
     (case webcam_video w0 of
        None \<Rightarrow> (Fulfilled (), w0\<lparr>response := camera_placeholder\<rparr>)
      | Some v \<Rightarrow>
          (let q = or_default (transcript w0) ''What do you see in this image?'';
               w1 = addToHistory Question q w0
           in case processAIResponse env q (Some (VideoElement v)) w1 of
                (Pending, w) \<Rightarrow> (Pending, w)
              | (Rejected err, w) \<Rightarrow>
                  (Fulfilled (), w\<lparr>response := ''Failed to analyze image. Please try again.''\<rparr>)
              | (Fulfilled t, w) \<Rightarrow> (Fulfilled (), answer_received t True w)))"

definition handleAskQuestion :: "ai_env \<Rightarrow> world \<Rightarrow> unit outcome \<times> world" where
  "handleAskQuestion env w0 =
     (if \<not> truthy (transcript w0) then (Fulfilled (), w0\<lparr>response := voice_placeholder\<rparr>)
      else
        (let w1 = addToHistory Question (transcript w0) w0
         in case processAIResponse env (transcript w0) None w1 of
              (Pending, w) \<Rightarrow> (Pending, w)
            | (Rejected err, w) \<Rightarrow>
                (Fulfilled (), w\<lparr>response := ''Failed to get response. Please try again.''\<rparr>)
            | (Fulfilled t, w) \<Rightarrow> (Fulfilled (), answer_received t True w)))"

definition handwriting_prompt :: "string \<Rightarrow> string" where
  "handwriting_prompt t =
     ''Analyze this text and provide feedback:'' @ nl
     @ dq @ t @ dq @ nl
     @ nl
     @ ''Please:'' @ nl
     @ ''1. Summarize the main points'' @ nl
     @ ''2. Point out any unclear parts'' @ nl
     @ ''3. Provide relevant educational context or response''"

definition recognized_message :: "(rat \<Rightarrow> string) \<Rightarrow> OCRResult \<Rightarrow> string" where
  "recognized_message toFixed1 result =
     ''Recognized Text ('' @ toFixed1 (confidence result) @ ''% confidence):'' @ nl
     @ text result"

definition processed_question :: "OCRResult \<Rightarrow> string" where
  "processed_question result = ''Processed handwritten text:'' @ nl @ text result"

text \<open>
  The \<open>try\<close> block of \<open>handleFileUpload\<close>. \<open>toFixed1\<close> is \<open>Number.prototype.toFixed\<close>
  with one digit, the platform's.
\<close>

definition handleFileUpload_try ::
  "bool \<Rightarrow> (rat \<Rightarrow> string) \<Rightarrow> ai_env \<Rightarrow> 'f tesseract \<Rightarrow> 'f \<Rightarrow> world \<Rightarrow> unit outcome \<times> world" where
  "handleFileUpload_try declared toFixed1 env tw file w0 =
     (case setError declared None (w0\<lparr>response := []\<rparr>) of
        (Inl e, w) \<Rightarrow> (Rejected e, w)
      | (Inr _, w1) \<Rightarrow>
          (case processImage tw file w1 of
             (Inl e, w) \<Rightarrow> (Rejected e, w)
           | (Inr None, w) \<Rightarrow> (Fulfilled (), w)
           | (Inr (Some result), w2) \<Rightarrow>
               (let w3 = w2\<lparr>response := recognized_message toFixed1 result\<rparr>;
                    w4 = addToHistory Question (processed_question result) w3
                in case processAIResponse env (handwriting_prompt (text result)) None w4 of
                     (Pending, w) \<Rightarrow> (Pending, w)
                   | (Rejected e, w) \<Rightarrow> (Rejected e, w)
                   | (Fulfilled t, w) \<Rightarrow> (Fulfilled (), answer_received t False w))))"

definition catch_setError :: "bool \<Rightarrow> string \<Rightarrow> unit outcome \<times> world \<Rightarrow> unit outcome \<times> world" where
  "catch_setError declared msg r =
     (case r of
        (Rejected err, w) \<Rightarrow>
          (case setError declared (Some msg) w of
             (Inl e, w') \<Rightarrow> (Rejected e, w')
           | (Inr _, w') \<Rightarrow> (Fulfilled (), w'))
      | _ \<Rightarrow> r)"

definition handleFileUpload ::
  "bool \<Rightarrow> (rat \<Rightarrow> string) \<Rightarrow> ai_env \<Rightarrow> 'f tesseract \<Rightarrow> 'f option \<Rightarrow> world
     \<Rightarrow> unit outcome \<times> world" where
  "handleFileUpload declared toFixed1 env tw file w0 =
     (case file of
        None \<Rightarrow> (Fulfilled (), w0)
      | Some f \<Rightarrow>
          catch_setError declared
            ''Failed to process handwriting. Please try a clearer image or check if the image contains text.''
            (handleFileUpload_try declared toFixed1 env tw f w0))"

definition whiteboard_prompt :: string where
  "whiteboard_prompt = ''Analyze this drawing and provide feedback and explanations''"

definition whiteboard_image :: "string \<Rightarrow> imageInput" where
  "whiteboard_image imageData =
     InlineData \<lparr>data = index_opt (split_on CHR '','' imageData) 1, mimeType = ''image/png''\<rparr>"

definition handleWhiteboardSubmit :: "bool \<Rightarrow> ai_env \<Rightarrow> string \<Rightarrow> world \<Rightarrow> unit outcome \<times> world" where
  "handleWhiteboardSubmit declared env imageData w0 =
     catch_setError declared ''Failed to analyze drawing. Please try again.''
       (case processAIResponse env whiteboard_prompt (Some (whiteboard_image imageData)) w0 of
          (Pending, w) \<Rightarrow> (Pending, w)
        | (Rejected e, w) \<Rightarrow> (Rejected e, w)
        | (Fulfilled t, w) \<Rightarrow> (Fulfilled (), answer_received t False w))"

text \<open>
  The other copy of the component (which declares \<open>setError\<close>) uploads without OCR:
  its \<open>handleFileUpload\<close> asks the generator for a short description of the image and
  records it as a question, and \<open>handleAnalyzeNotes\<close> asks for the analysis and records
  the answer. Files and blobs, \<open>URL.createObjectURL\<close>, the \<open>FileReader\<close> behind
  \<open>fileToBase64\<close> and \<open>fetch\<close> are the platform's.
\<close>

record 'f upload_env =
  createObjectURL :: "'f \<Rightarrow> string"
  fileToBase64 :: "'f \<Rightarrow> js_exn + string"
  file_type :: "'f \<Rightarrow> string"
  fetch_blob :: "string \<Rightarrow> js_exn + 'f"

definition describe_prompt :: string where
  "describe_prompt = ''Briefly describe what's in this image in 1-2 sentences.''"

definition notes_prompt :: string where
  "notes_prompt =
     ''This image contains notes or text. Please analyze in detail by: 1) Summarizing the main content, 2) Explaining any concepts present, 3) Providing educational context or corrections if needed.''"

definition encoded_image :: "'f upload_env \<Rightarrow> 'f \<Rightarrow> string \<Rightarrow> imageInput" where
  "encoded_image up f base64Data =
     InlineData \<lparr>data = index_opt (split_on CHR '','' base64Data) 1, mimeType = file_type up f\<rparr>"

definition description_received :: "string \<Rightarrow> world \<Rightarrow> world" where
  "description_received t w =
     (if truthy t
      then (let w1 = w\<lparr>response := t\<rparr>;
                w2 = addToHistory Question (''Uploaded image: '' @ t) w1
            in w2\<lparr>showAnalyzeButton := True\<rparr>)
      else w)"

definition handleFileUpload2_try ::
  "'f upload_env \<Rightarrow> ai_env \<Rightarrow> 'f \<Rightarrow> world \<Rightarrow> unit outcome \<times> world" where
  "handleFileUpload2_try up env f w0 =
     (let w1 = w0\<lparr>response := []\<rparr>;
          w2 = w1\<lparr>app_error := None\<rparr>;
          w3 = w2\<lparr>showAnalyzeButton := False\<rparr>;
          w4 = w3\<lparr>uploadedImage := Some (createObjectURL up f)\<rparr>;
          w5 = w4\<lparr>isLocalLoading := True\<rparr>
      in case fileToBase64 up f of
           Inl e \<Rightarrow> (Rejected e, w5)
         | Inr base64Data \<Rightarrow>
             (case processAIResponse env describe_prompt (Some (encoded_image up f base64Data)) w5 of
                (Pending, w) \<Rightarrow> (Pending, w)
              | (Rejected e, w) \<Rightarrow> (Rejected e, w)
              | (Fulfilled t, w) \<Rightarrow> (Fulfilled (), description_received t w)))"

definition handleFileUpload2 ::
  "'f upload_env \<Rightarrow> ai_env \<Rightarrow> 'f option \<Rightarrow> world \<Rightarrow> unit outcome \<times> world" where
  "handleFileUpload2 up env fl w0 =
     (case fl of
        None \<Rightarrow> (Fulfilled (), w0)
      | Some f \<Rightarrow>
          (case handleFileUpload2_try up env f w0 of
             (Pending, w) \<Rightarrow> (Pending, w)
           | (Rejected err, w) \<Rightarrow>
               (Fulfilled (),
                w\<lparr>response := ''Failed to process image. Please try again.'',
                  isLocalLoading := False\<rparr>)
           | (Fulfilled u, w) \<Rightarrow> (Fulfilled (), w\<lparr>isLocalLoading := False\<rparr>)))"

definition handleAnalyzeNotes_try ::
  "'f upload_env \<Rightarrow> ai_env \<Rightarrow> string \<Rightarrow> world \<Rightarrow> unit outcome \<times> world" where
  "handleAnalyzeNotes_try up env url w0 =
     (let w1 = w0\<lparr>isLocalLoading := True\<rparr>
      in case fetch_blob up url of
           Inl e \<Rightarrow> (Rejected e, w1)
         | Inr blob \<Rightarrow>
             (case fileToBase64 up blob of
                Inl e \<Rightarrow> (Rejected e, w1)
              | Inr base64Data \<Rightarrow>
                  (case processAIResponse env notes_prompt
                          (Some (encoded_image up blob base64Data)) w1 of
                     (Pending, w) \<Rightarrow> (Pending, w)
                   | (Rejected e, w) \<Rightarrow> (Rejected e, w)
                   | (Fulfilled t, w) \<Rightarrow> (Fulfilled (), answer_received t False w))))"

definition handleAnalyzeNotes :: "'f upload_env \<Rightarrow> ai_env \<Rightarrow> world \<Rightarrow> unit outcome \<times> world" where
  "handleAnalyzeNotes up env w0 =
     (case uploadedImage w0 of
        None \<Rightarrow> (Fulfilled (), w0)
      | Some url \<Rightarrow>
          if \<not> truthy url then (Fulfilled (), w0)
          else
            (case handleAnalyzeNotes_try up env url w0 of
               (Pending, w) \<Rightarrow> (Pending, w)
             | (Rejected err, w) \<Rightarrow>
                 (Fulfilled (),
                  w\<lparr>app_error := Some ''Failed to analyze notes. Please try again.'',
                    isLocalLoading := False\<rparr>)
             | (Fulfilled u, w) \<Rightarrow> (Fulfilled (), w\<lparr>isLocalLoading := False\<rparr>)))"

fun show_nat :: "nat \<Rightarrow> string" where
  "show_nat n =
     (if n < 10 then [char_of (48 + n)]
      else show_nat (n div 10) @ [char_of (48 + n mod 10)])"

definition handleQuizComplete :: "nat \<Rightarrow> world \<Rightarrow> world" where
  "handleQuizComplete sc w = addToHistory Answer (''Quiz completed! Score: '' @ show_nat sc) w"

text \<open>
  Everything that changes the state of the page: the handlers above, a recognition
  result of the voice hook (which overwrites the transcript), the webcam coming or
  going, the effect that clears response and transcript when the input mode changes,
  and the effect of the other copy that copies an error of the generator hook.
\<close>

datatype 'f action =
    AnalyzeImage ai_env
  | AskQuestion ai_env
  | FileUpload bool "rat \<Rightarrow> string" ai_env "'f tesseract" "'f option"
  | WhiteboardSubmit bool ai_env string
  | ImageUpload "'f upload_env" ai_env "'f option"
  | AnalyzeNotes "'f upload_env" ai_env
  | QuizComplete nat
  | ClearHistory
  | SpeechResult string
  | Webcam "video option"
  | ModeChanged
  | ErrorSynced

fun perform :: "'f action \<Rightarrow> world \<Rightarrow> world" where
  "perform (AnalyzeImage env) w = snd (handleAnalyzeImage env w)"
| "perform (AskQuestion env) w = snd (handleAskQuestion env w)"
| "perform (FileUpload declared toFixed1 env tw file) w =
     snd (handleFileUpload declared toFixed1 env tw file w)"
| "perform (WhiteboardSubmit declared env imageData) w =
     snd (handleWhiteboardSubmit declared env imageData w)"
| "perform (ImageUpload up env fl) w = snd (handleFileUpload2 up env fl w)"
| "perform (AnalyzeNotes up env) w = snd (handleAnalyzeNotes up env w)"
| "perform (QuizComplete sc) w = handleQuizComplete sc w"
| "perform ClearHistory w = clearHistory w"
| "perform (SpeechResult t) w = w\<lparr>transcript := t\<rparr>"
| "perform (Webcam v) w = w\<lparr>webcam_video := v\<rparr>"
| "perform ModeChanged w = resetTranscript (w\<lparr>response := []\<rparr>)"
| "perform ErrorSynced w =
     (case ai_error w of
        None \<Rightarrow> w
      | Some e \<Rightarrow> if truthy e then w\<lparr>app_error := Some e\<rparr> else w)"

text \<open>
  A request and response cycle of the chat surface: the voice hook has put a transcript
  in place (and, for the camera, the webcam shows a video), then the handler runs.
  \<open>cycle_reply\<close> is what \<open>processAIResponse\<close> settles with in the cycle, \<open>None\<close>
  when the handler does not call it; the cycle is successful when the generator was
  called and gave a text that is not empty.
\<close>

datatype cycle = AskCycle string ai_env | VisualCycle string video ai_env

fun run_cycle :: "cycle \<Rightarrow> world \<Rightarrow> world" where
  "run_cycle (AskCycle t env) w = snd (handleAskQuestion env (w\<lparr>transcript := t\<rparr>))"
| "run_cycle (VisualCycle t v env) w =
     snd (handleAnalyzeImage env (w\<lparr>transcript := t, webcam_video := Some v\<rparr>))"

fun cycle_question :: "cycle \<Rightarrow> string" where
  "cycle_question (AskCycle t env) = t"
| "cycle_question (VisualCycle t v env) = or_default t ''What do you see in this image?''"

fun cycle_reply :: "cycle \<Rightarrow> world \<Rightarrow> string outcome option" where
  "cycle_reply (AskCycle t env) w =
     (if truthy t
      then Some (fst (processAIResponse env t None
                        (addToHistory Question t (w\<lparr>transcript := t\<rparr>))))
      else None)"
| "cycle_reply (VisualCycle t v env) w =
     Some (fst (processAIResponse env (cycle_question (VisualCycle t v env))
                  (Some (VideoElement v))
                  (addToHistory Question (cycle_question (VisualCycle t v env))
                     (w\<lparr>transcript := t, webcam_video := Some v\<rparr>))))"

definition reply_text :: "cycle \<Rightarrow> world \<Rightarrow> string" where
  "reply_text c w = (case cycle_reply c w of Some (Fulfilled t) \<Rightarrow> t | _ \<Rightarrow> [])"

definition successful :: "cycle \<Rightarrow> world \<Rightarrow> bool" where
  "successful c w \<longleftrightarrow> truthy (reply_text c w)"

fun run_cycles :: "cycle list \<Rightarrow> world \<Rightarrow> world" where
  "run_cycles [] w = w"
| "run_cycles (c # cs) w = run_cycles cs (run_cycle c w)"

fun all_successful :: "cycle list \<Rightarrow> world \<Rightarrow> bool" where
  "all_successful [] w = True"
| "all_successful (c # cs) w = (successful c w \<and> all_successful cs (run_cycle c w))"

fun replies :: "cycle list \<Rightarrow> world \<Rightarrow> string list" where
  "replies [] w = []"
| "replies (c # cs) w = reply_text c w # replies cs (run_cycle c w)"

fun question_answer_pairs :: "string list \<Rightarrow> string list \<Rightarrow> (kind \<times> string) list" where
  "question_answer_pairs (q # qs) (a # as) = (Question, q) # (Answer, a) # question_answer_pairs qs as"
| "question_answer_pairs _ _ = []"

section \<open>Auxiliary definitions for the proofs\<close>

text \<open>What the logger does to the progress value, apart from the rest of the state.\<close>

definition progress_after :: "nat \<Rightarrow> string \<Rightarrow> nat" where
  "progress_after p status =
     (if status = ''recognizing text'' then 90
      else if status = ''initializing api'' then 75
      else if status = ''loading language traineddata'' then 50
      else if status = ''loading tesseract core'' then 25
      else p)"

text \<open>Two states of the page that differ at most in what the OCR hook owns.\<close>

definition ocr_frame :: "world \<Rightarrow> world \<Rightarrow> bool" where
  "ocr_frame w w' \<longleftrightarrow>
     w'\<lparr>isProcessing := isProcessing w, ocr_error := ocr_error w, progress := progress w,
        worker_calls := worker_calls w\<rparr> = w"


section \<open>Sample inputs\<close>

text \<open>A generator that gives the same reply to every prompt.\<close>

definition always_reply :: "string \<Rightarrow> string \<Rightarrow> js_exn + string" where
  "always_reply r p = Inr r"

definition sample_quiz :: Quiz where
  "sample_quiz =
     \<lparr>topic = ''Photosynthesis'',
      questions =
        [\<lparr>question = ''Which pigment absorbs light?'',
          options = [''Chlorophyll'', ''Keratin'', ''Melanin'', ''Insulin''],
          correctAnswer = ''Chlorophyll'',
          explanation = ''Chlorophyll absorbs red and blue light.''\<rparr>,
         \<lparr>question = ''Which gas is released?'',
          options = [''Oxygen'', ''Nitrogen'', ''Helium'', ''Argon''],
          correctAnswer = ''Oxygen'',
          explanation = ''Splitting water releases oxygen.''\<rparr>]\<rparr>"




definition initial_world :: world where
  "initial_world =
     \<lparr>conversationHistory = [], response = [], app_error = None, webcam_video = None,
      uploadedImage = None, showAnalyzeButton = False, isLocalLoading = False,
      transcript = [], isProcessing = False, progress = 0, ocr_error = None,
      enableVoice = True, voiceOutput = True, isSpeaking = False, isLoading = False,
      ai_error = None, now = 0, generate_calls = [], submissions = [], spoken = [],
      worker_calls = []\<rparr>"

definition sample_tesseract :: "string tesseract" where
  "sample_tesseract =
     \<lparr>createWorker = Inr (),
      load = \<lparr>statuses = [''loading tesseract core''], settles = Inr ()\<rparr>,
      loadLanguage = (\<lambda>l. \<lparr>statuses = [''loading language traineddata''], settles = Inr ()\<rparr>),
      initialize = (\<lambda>l. \<lparr>statuses = [''initializing api''], settles = Inr ()\<rparr>),
      recognize = (\<lambda>f. \<lparr>statuses = [''recognizing text''],
                          settles = Inr \<lparr>data_text = '' Hello World '' @ [CHR 0x0A],
                                         data_confidence = 427 / 10\<rparr>\<rparr>),
      terminate = \<lparr>statuses = [], settles = Inr ()\<rparr>\<rparr>"

definition failing_stage :: "'a stage" where
  "failing_stage = \<lparr>statuses = [], settles = Inl (Error ''NetworkError'')\<rparr>"

definition blank_page :: "recognized stage" where
  "blank_page =
     \<lparr>statuses = [''recognizing text''],
      settles = Inr \<lparr>data_text = ''  '' @ [CHR 0x0A], data_confidence = 0\<rparr>\<rparr>"

definition sample_ai :: ai_env where
  "sample_ai =
     \<lparr>getContext_2d = True, loadeddata_fires = True,
      toDataURL = (\<lambda>c t q. ''data:'' @ t @ '';base64,/9j/4AAQ''),
      vision_generateContent = (\<lambda>d q. Inr ''A diagram of a leaf.''),
      text_generateContent = (\<lambda>q. Inr ''Plants make sugar from light.''),
      latency = 3, speak_throws = False\<rparr>"

text \<open>A vision model whose reply repeats the payload and the prompt it was handed.\<close>

definition echo_request :: "inlineData \<Rightarrow> string \<Rightarrow> js_exn + string" where
  "echo_request d q =
     Inr ((case data d of None \<Rightarrow> ''undefined'' | Some x \<Rightarrow> x) @ '' '' @ mimeType d @ '' '' @ q)"

definition echo_ai :: ai_env where
  "echo_ai = sample_ai\<lparr>vision_generateContent := echo_request\<rparr>"

definition sample_video :: video where
  "sample_video = \<lparr>readyState = 4, frame = 7\<rparr>"

definition sample_cycles :: "cycle list" where
  "sample_cycles =
     [AskCycle ''What is photosynthesis?'' sample_ai, VisualCycle [] sample_video sample_ai]"

definition sample_drawing :: string where
  "sample_drawing = ''data:image/png;base64,iVBORw0KGgo=''"

section \<open>Theorems\<close>

subsection \<open>The quiz generator hook\<close>

lemma question_at_in_range:
  "0 \<le> i \<Longrightarrow> i < int (length (questions q)) \<Longrightarrow> question_at q i = Some (questions q ! nat i)"
  by (simp add: question_at_def)

lemma question_at_out_of_range:
  "i < 0 \<or> int (length (questions q)) \<le> i \<Longrightarrow> question_at q i = None"
  by (auto simp: question_at_def)

text \<open>
  C1, as stated: for every index outside the list \<open>checkAnswer\<close> returns false and never
  fails. It fails on the code: with a quiz of one question loaded, index 1 throws a
  \<open>TypeError\<close>.
\<close>

theorem checkAnswer_out_of_range_throws:
  "checkAnswer
     (Some \<lparr>topic = ''Photosynthesis'',
            questions =
              [\<lparr>question = ''Which pigment absorbs light?'',
                options = [''Chlorophyll'', ''Keratin'', ''Melanin'', ''Insulin''],
                correctAnswer = ''Chlorophyll'',
                explanation = ''Chlorophyll absorbs red and blue light.''\<rparr>]\<rparr>)
     1 ''Chlorophyll''
   = Inl (undefined_property ''correctAnswer'')
   \<and> checkAnswer
     (Some \<lparr>topic = ''Photosynthesis'',
            questions =
              [\<lparr>question = ''Which pigment absorbs light?'',
                options = [''Chlorophyll'', ''Keratin'', ''Melanin'', ''Insulin''],
                correctAnswer = ''Chlorophyll'',
                explanation = ''Chlorophyll absorbs red and blue light.''\<rparr>]\<rparr>)
     1 ''Chlorophyll''
   \<noteq> Inr False"
  by (simp add: checkAnswer_def question_at_def)

text \<open>
  C1, amended: with no quiz loaded \<open>checkAnswer\<close> returns false for every index and
  answer; with a quiz loaded and an index inside the list it returns true exactly when
  the answer equals the question's \<open>correctAnswer\<close>; with a quiz loaded and an index
  outside the list it does not return false but throws a \<open>TypeError\<close>.
\<close>

theorem checkAnswer_cases:
  "checkAnswer None i a = Inr False
   \<and> (0 \<le> i \<and> i < int (length (questions q)) \<longrightarrow>
        checkAnswer (Some q) i a = Inr (a = correctAnswer (questions q ! nat i)))
   \<and> (i < 0 \<or> int (length (questions q)) \<le> i \<longrightarrow>
        checkAnswer (Some q) i a = Inl (undefined_property ''correctAnswer''))"
  by (auto simp: checkAnswer_def question_at_def)

theorem checkAnswer_cases_witness:
  "checkAnswer None 1 ''Oxygen'' = Inr False
   \<and> (0::int) \<le> 1 \<and> (1::int) < int (length (questions sample_quiz))
   \<and> checkAnswer (Some sample_quiz) 1 ''Oxygen'' = Inr True
   \<and> checkAnswer (Some sample_quiz) 1 ''Argon'' = Inr False
   \<and> int (length (questions sample_quiz)) \<le> 2
   \<and> checkAnswer (Some sample_quiz) 2 ''Oxygen'' = Inl (undefined_property ''correctAnswer'')
   \<and> checkAnswer (Some sample_quiz) (- 1) ''Oxygen'' = Inl (undefined_property ''correctAnswer'')"
  using checkAnswer_cases [where i = 1 and a = "''Oxygen''" and q = sample_quiz]
        checkAnswer_cases [where i = 1 and a = "''Argon''" and q = sample_quiz]
        checkAnswer_cases [where i = 2 and a = "''Oxygen''" and q = sample_quiz]
        checkAnswer_cases [where i = "- 1" and a = "''Oxygen''" and q = sample_quiz]
  by (simp add: sample_quiz_def)

text \<open>
  The model of the regular expression agrees with its reading: there is no match
  exactly when the text has no opening brace with a closing brace somewhere after it,
  and a match runs from the first opening brace of the text to its last closing brace.
\<close>

lemma dropWhile_neq_first:
  "x \<in> set xs \<Longrightarrow> \<exists>r. dropWhile (\<lambda>c. c \<noteq> x) xs = x # r"
  by (induction xs) auto

lemma dropWhile_neq_absent:
  "x \<notin> set xs \<Longrightarrow> dropWhile (\<lambda>c. c \<noteq> x) xs = []"
  by (induction xs) auto

lemma jsonMatch_no_opening:
  assumes "CHR ''{'' \<notin> set t"
  shows "jsonMatch t = None"
proof -
  have d: "dropWhile (\<lambda>c. c \<noteq> CHR ''{'') t = []"
    using assms by (rule dropWhile_neq_absent)
  show ?thesis unfolding jsonMatch_def d by simp
qed

lemma jsonMatch_no_closing:
  assumes "dropWhile (\<lambda>c. c \<noteq> CHR ''{'') t = b # rest" "CHR ''}'' \<notin> set rest"
  shows "jsonMatch t = None"
proof -
  have "CHR ''}'' \<notin> set (rev rest)" using assms(2) by simp
  then have d: "dropWhile (\<lambda>c. c \<noteq> CHR ''}'') (rev rest) = []"
    by (rule dropWhile_neq_absent)
  show ?thesis unfolding jsonMatch_def assms(1) by (simp add: d del: dropWhile_eq_Nil_conv)
qed

lemma jsonMatch_found:
  assumes "dropWhile (\<lambda>c. c \<noteq> CHR ''{'') t = b # rest"
    and "dropWhile (\<lambda>c. c \<noteq> CHR ''}'') (rev rest) = y # r"
  shows "jsonMatch t = Some (b # rev (y # r))"
  unfolding jsonMatch_def assms(1) by (simp add: assms(2))

lemma dropWhile_neq_append_in:
  "x \<in> set xs \<Longrightarrow> dropWhile (\<lambda>c. c \<noteq> x) (xs @ ys) = dropWhile (\<lambda>c. c \<noteq> x) xs @ ys"
  by (induction xs) auto

lemma dropWhile_neq_append_out:
  "x \<notin> set xs \<Longrightarrow> dropWhile (\<lambda>c. c \<noteq> x) (xs @ x # ys) = x # ys"
  by (induction xs) auto

lemma closing_after_opening:
  assumes dw: "dropWhile (\<lambda>c. c \<noteq> CHR ''{'') t = CHR ''{'' # rest"
    and d: "t = a @ CHR ''{'' # b @ CHR ''}'' # c"
  shows "CHR ''}'' \<in> set rest"
proof (cases "CHR ''{'' \<in> set a")
  case True
  from dropWhile_neq_first[OF True]
  obtain r where r: "dropWhile (\<lambda>c. c \<noteq> CHR ''{'') a = CHR ''{'' # r" ..
  from dw have "CHR ''{'' # rest = dropWhile (\<lambda>c. c \<noteq> CHR ''{'') t" by (rule sym)
  also have "\<dots> = dropWhile (\<lambda>c. c \<noteq> CHR ''{'') a @ CHR ''{'' # b @ CHR ''}'' # c"
    unfolding d using True by (rule dropWhile_neq_append_in)
  also have "\<dots> = (CHR ''{'' # r) @ CHR ''{'' # b @ CHR ''}'' # c"
    by (simp only: r)
  finally have "rest = r @ CHR ''{'' # b @ CHR ''}'' # c" by simp
  then show ?thesis by simp
next
  case False
  from dw have "CHR ''{'' # rest = dropWhile (\<lambda>c. c \<noteq> CHR ''{'') t" by (rule sym)
  also have "\<dots> = CHR ''{'' # b @ CHR ''}'' # c"
    unfolding d using False by (rule dropWhile_neq_append_out)
  finally have "rest = b @ CHR ''}'' # c" by simp
  then show ?thesis by simp
qed

lemma opening_before_closing:
  assumes dw: "dropWhile (\<lambda>c. c \<noteq> CHR ''{'') t = CHR ''{'' # rest"
    and cl: "CHR ''}'' \<in> set rest"
  shows "\<exists>a b c. t = a @ CHR ''{'' # b @ CHR ''}'' # c"
proof -
  from split_list[OF cl] obtain b c where rc: "rest = b @ CHR ''}'' # c" by blast
  have "takeWhile (\<lambda>c. c \<noteq> CHR ''{'') t @ dropWhile (\<lambda>c. c \<noteq> CHR ''{'') t = t"
    by (rule takeWhile_dropWhile_id)
  then have "t = takeWhile (\<lambda>c. c \<noteq> CHR ''{'') t @ CHR ''{'' # b @ CHR ''}'' # c"
    by (simp only: dw rc)
  then show ?thesis
    by (intro exI[of _ "takeWhile (\<lambda>c. c \<noteq> CHR ''{'') t"] exI[of _ b] exI[of _ c])
qed

lemma no_opening_no_pair:
  assumes "CHR ''{'' \<notin> set t"
  shows "\<forall>a b c. t \<noteq> a @ CHR ''{'' # b @ CHR ''}'' # c"
proof (intro allI notI)
  fix a b c
  assume "t = a @ CHR ''{'' # b @ CHR ''}'' # c"
  then have "CHR ''{'' \<in> set t" by simp
  with assms show False by contradiction
qed

lemma jsonMatch_None_iff:
  "jsonMatch t = None \<longleftrightarrow> (\<forall>a b c. t \<noteq> a @ CHR ''{'' # b @ CHR ''}'' # c)"
proof (cases "CHR ''{'' \<in> set t")
  case False
  then show ?thesis
    using jsonMatch_no_opening[of t] no_opening_no_pair[of t] by simp
next
  case True
  from dropWhile_neq_first[OF True]
  obtain rest where dw: "dropWhile (\<lambda>c. c \<noteq> CHR ''{'') t = CHR ''{'' # rest" ..
  show ?thesis
  proof (cases "CHR ''}'' \<in> set rest")
    case False
    have "jsonMatch t = None" using dw False by (rule jsonMatch_no_closing)
    moreover have "\<forall>a b c. t \<noteq> a @ CHR ''{'' # b @ CHR ''}'' # c"
    proof (intro allI notI)
      fix a b c
      assume "t = a @ CHR ''{'' # b @ CHR ''}'' # c"
      with dw have "CHR ''}'' \<in> set rest" by (rule closing_after_opening)
      with False show False by contradiction
    qed
    ultimately show ?thesis by simp
  next
    case cl: True
    then have "CHR ''}'' \<in> set (rev rest)" by simp
    from dropWhile_neq_first[OF this]
    obtain r where r: "dropWhile (\<lambda>c. c \<noteq> CHR ''}'') (rev rest) = CHR ''}'' # r" ..
    have "jsonMatch t \<noteq> None" using jsonMatch_found[OF dw r] by simp
    moreover have "\<not> (\<forall>a b c. t \<noteq> a @ CHR ''{'' # b @ CHR ''}'' # c)"
      using opening_before_closing[OF dw cl] by simp
    ultimately show ?thesis by (simp only: simp_thms)
  qed
qed

lemma jsonMatch_Some:
  assumes h: "jsonMatch t = Some m"
  shows "\<exists>a b c. t = a @ m @ c \<and> m = CHR ''{'' # b @ [CHR ''}'']
        \<and> CHR ''{'' \<notin> set a \<and> CHR ''}'' \<notin> set c"
proof -
  have o: "CHR ''{'' \<in> set t"
  proof (rule ccontr)
    assume "CHR ''{'' \<notin> set t"
    then have "jsonMatch t = None" by (rule jsonMatch_no_opening)
    with h show False by simp
  qed
  from dropWhile_neq_first[OF o]
  obtain rest where dw: "dropWhile (\<lambda>c. c \<noteq> CHR ''{'') t = CHR ''{'' # rest" ..
  have cl: "CHR ''}'' \<in> set (rev rest)"
  proof (rule ccontr)
    assume "CHR ''}'' \<notin> set (rev rest)"
    then have "CHR ''}'' \<notin> set rest" by simp
    with dw have "jsonMatch t = None" by (rule jsonMatch_no_closing)
    with h show False by simp
  qed
  from dropWhile_neq_first[OF cl]
  obtain r where r: "dropWhile (\<lambda>c. c \<noteq> CHR ''}'') (rev rest) = CHR ''}'' # r" ..
  have m: "m = CHR ''{'' # rev r @ [CHR ''}'']"
    using h jsonMatch_found[OF dw r] by simp
  obtain pre where pre: "pre = takeWhile (\<lambda>c. c \<noteq> CHR ''{'') t" by simp
  obtain post where post: "post = takeWhile (\<lambda>c. c \<noteq> CHR ''}'') (rev rest)" by simp
  have "takeWhile (\<lambda>c. c \<noteq> CHR ''}'') (rev rest) @ dropWhile (\<lambda>c. c \<noteq> CHR ''}'') (rev rest)
          = rev rest"
    by (rule takeWhile_dropWhile_id)
  then have "post @ CHR ''}'' # r = rev rest"
    by (simp only: r post)
  then have "rev (post @ CHR ''}'' # r) = rev (rev rest)"
    by (rule arg_cong)
  then have rest: "rest = rev r @ CHR ''}'' # rev post"
    by simp
  have "takeWhile (\<lambda>c. c \<noteq> CHR ''{'') t @ dropWhile (\<lambda>c. c \<noteq> CHR ''{'') t = t"
    by (rule takeWhile_dropWhile_id)
  then have t: "t = pre @ CHR ''{'' # rest"
    by (simp only: dw pre)
  have 1: "t = pre @ m @ rev post"
    unfolding t rest m by simp
  have 2: "CHR ''{'' \<notin> set pre"
    unfolding pre by (auto dest: set_takeWhileD)
  have 3: "CHR ''}'' \<notin> set (rev post)"
    unfolding post by (auto dest: set_takeWhileD)
  from 1 2 3 m have "t = pre @ m @ rev post \<and> m = CHR ''{'' # rev r @ [CHR ''}'']
        \<and> CHR ''{'' \<notin> set pre \<and> CHR ''}'' \<notin> set (rev post)"
    by simp
  then show ?thesis
    by (intro exI[of _ pre] exI[of _ "rev r"] exI[of _ "rev post"])
qed



text \<open>
  C6, as stated: \<open>generateQuiz\<close> fails whenever the reply cannot be parsed into the
  schema. It fails on the code: the reply \<open>{}\<close> parses to the empty object, which has
  neither topic nor questions, and \<open>generateQuiz\<close> stores and returns it with no error.
\<close>

theorem generateQuiz_accepts_empty_object:
  "\<not> spec_quiz_schema (JObject [])
   \<and> generateQuiz (always_reply ''{}'') JSON_parse_table ''Photosynthesis'' medium
       initial_quiz_hook
     = (Inr (Some (JObject [])),
        \<lparr>isGenerating = False, currentQuiz = Some (JObject []), quiz_error = None\<rparr>)"
  by (simp add: spec_quiz_schema_def generateQuiz_def generateQuiz_try_def jsonMatch_def
                JSON_parse_table_def initial_quiz_hook_def always_reply_def)

text \<open>
  C6, amended: \<open>generateQuiz\<close> never rejects and always leaves \<open>isGenerating\<close> false. It
  returns null exactly when the request fails, or the reply has no substring from an
  opening to a closing brace, or \<open>JSON.parse\<close> throws on that substring; it then sets the
  error to the generic retry message and keeps the quiz it had. In every other case it
  stores and returns the parsed value as it is and sets no error: the value is not checked
  against the schema.
\<close>

theorem generateQuiz_outcome:
  "(let r = generateQuiz g p t d h in
     (\<exists>res. fst r = Inr res)
   \<and> \<not> isGenerating (snd r)
   \<and> (fst r = Inr None \<longleftrightarrow>
        (\<forall>reply m quiz. g (quiz_prompt d t) = Inr reply \<longrightarrow> jsonMatch reply = Some m
            \<longrightarrow> p m \<noteq> Inr quiz))
   \<and> (fst r = Inr None \<longrightarrow>
        quiz_error (snd r) = Some ''Failed to generate quiz. Please try again.''
        \<and> currentQuiz (snd r) = currentQuiz h)
   \<and> (\<forall>quiz. fst r = Inr (Some quiz) \<longrightarrow>
        (\<exists>reply m. g (quiz_prompt d t) = Inr reply \<and> jsonMatch reply = Some m \<and> p m = Inr quiz)
        \<and> currentQuiz (snd r) = Some quiz \<and> quiz_error (snd r) = None)
   \<and> (\<forall>reply. g (quiz_prompt d t) = Inr reply
          \<and> (\<forall>a b c. reply \<noteq> a @ CHR ''{'' # b @ CHR ''}'' # c) \<longrightarrow> fst r = Inr None)
   \<and> (\<forall>reply m e. g (quiz_prompt d t) = Inr reply \<and> jsonMatch reply = Some m \<and> p m = Inl e
          \<longrightarrow> fst r = Inr None))"
proof -
  have "\<forall>reply. g (quiz_prompt d t) = Inr reply
          \<and> (\<forall>a b c. reply \<noteq> a @ CHR ''{'' # b @ CHR ''}'' # c)
        \<longrightarrow> fst (generateQuiz g p t d h) = Inr None"
    by (auto simp: generateQuiz_def generateQuiz_try_def Let_def jsonMatch_None_iff[symmetric])
  then show ?thesis
    by (auto simp: generateQuiz_def generateQuiz_try_def Let_def
             split: sum.splits option.splits)
qed

theorem generateQuiz_outcome_witness:
  "jsonMatch ''Sorry, I cannot write a quiz.'' = None
   \<and> generateQuiz (\<lambda>p. Inr ''Sorry, I cannot write a quiz.'') JSON_parse_table
        ''Photosynthesis'' medium initial_quiz_hook
     = (Inr None,
        \<lparr>isGenerating = False, currentQuiz = None,
         quiz_error = Some ''Failed to generate quiz. Please try again.''\<rparr>)
   \<and> jsonMatch ''Here it is: {quiz}'' = Some ''{quiz}''
   \<and> JSON_parse_table ''{quiz}'' = Inl (SyntaxError ''outside the table'')
   \<and> fst (generateQuiz (\<lambda>p. Inr ''Here it is: {quiz}'') JSON_parse_table
        ''Photosynthesis'' medium initial_quiz_hook) = Inr None
   \<and> fst (generateQuiz (\<lambda>p. Inl (Error ''503'')) JSON_parse_table
        ''Photosynthesis'' medium initial_quiz_hook) = Inr None
   \<and> fst (generateQuiz (\<lambda>p. Inr ''{}'') JSON_parse_table
        ''Photosynthesis'' medium initial_quiz_hook) = Inr (Some (JObject []))"
  using generateQuiz_outcome [where g = "\<lambda>p. Inr ''Sorry, I cannot write a quiz.''"
          and p = JSON_parse_table and t = "''Photosynthesis''" and d = medium
          and h = initial_quiz_hook]
        generateQuiz_outcome [where g = "\<lambda>p. Inr ''Here it is: {quiz}''"
          and p = JSON_parse_table and t = "''Photosynthesis''" and d = medium
          and h = initial_quiz_hook]
  by (simp add: generateQuiz_def generateQuiz_try_def jsonMatch_def JSON_parse_table_def
                initial_quiz_hook_def dq_def)

subsection \<open>The quiz view\<close>









subsection \<open>The OCR hook\<close>

lemma fst_bind_exn:
  "fst (bind_exn m f) = (case fst m of Inl e \<Rightarrow> Inl e | Inr a \<Rightarrow> fst (f a (snd m)))"
  by (cases m) (simp add: bind_exn_def split: sum.splits)

lemma fst_await_stage: "fst (await_stage c st w) = settles st"
  by (simp add: await_stage_def)

lemma processImage_try_result:
  "fst (processImage_try tw f w) =
     (case createWorker tw of Inl e \<Rightarrow> Inl e | Inr u0 \<Rightarrow>
      (case settles (load tw) of Inl e \<Rightarrow> Inl e | Inr u1 \<Rightarrow>
      (case settles (loadLanguage tw ''eng'') of Inl e \<Rightarrow> Inl e | Inr u2 \<Rightarrow>
      (case settles (initialize tw ''eng'') of Inl e \<Rightarrow> Inl e | Inr u3 \<Rightarrow>
      (case settles (recognize tw f) of Inl e \<Rightarrow> Inl e | Inr d \<Rightarrow>
      (case settles (terminate tw) of Inl e \<Rightarrow> Inl e | Inr u4 \<Rightarrow>
         if trim (data_text d) = [] then Inl (Error no_text_message)
         else Inr \<lparr>text = trim (data_text d), confidence = data_confidence d\<rparr>))))))"
  by (simp add: processImage_try_def Let_def fst_bind_exn fst_await_stage truthy_def
           split: sum.splits)

lemma processImage_result:
  "processImage tw f w =
     (case fst (processImage_try tw f w) of
        Inr r \<Rightarrow> (Inr (Some r), (snd (processImage_try tw f w))\<lparr>isProcessing := False\<rparr>)
      | Inl err \<Rightarrow>
          (Inr None,
           (snd (processImage_try tw f w))
             \<lparr>ocr_error := Some (if instanceof_Error err then message err
                      else ''Failed to process handwritten text. Please try again.''),
              isProcessing := False\<rparr>))"
  by (cases "processImage_try tw f w") (simp add: processImage_def split: sum.splits)

lemma processImage_try_fails:
  assumes "(\<exists>e. createWorker tw = Inl e \<or> settles (load tw) = Inl e
              \<or> settles (loadLanguage tw ''eng'') = Inl e
              \<or> settles (initialize tw ''eng'') = Inl e
              \<or> settles (recognize tw f) = Inl e \<or> settles (terminate tw) = Inl e)
         \<or> (\<exists>d. settles (recognize tw f) = Inr d \<and> trim (data_text d) = [])"
  shows "\<exists>e. fst (processImage_try tw f w) = Inl e"
proof (cases "fst (processImage_try tw f w)")
  case (Inl e)
  then show ?thesis by blast
next
  case (Inr r)
  have "\<not> ((\<exists>e. createWorker tw = Inl e \<or> settles (load tw) = Inl e
              \<or> settles (loadLanguage tw ''eng'') = Inl e
              \<or> settles (initialize tw ''eng'') = Inl e
              \<or> settles (recognize tw f) = Inl e \<or> settles (terminate tw) = Inl e)
         \<or> (\<exists>d. settles (recognize tw f) = Inr d \<and> trim (data_text d) = []))"
    using Inr unfolding processImage_try_result
    by (auto split: sum.splits if_splits)
  with assms show ?thesis by blast
qed

lemma logger_eq: "logger w s = w\<lparr>progress := progress_after (progress w) s\<rparr>"
  by (simp add: logger_def progress_after_def Let_def)

lemma foldl_logger_eq:
  "foldl logger w xs = w\<lparr>progress := foldl progress_after (progress w) xs\<rparr>"
  by (induction xs arbitrary: w) (simp_all add: logger_eq)

lemma await_stage_eq:
  "await_stage c st w =
     (settles st, w\<lparr>worker_calls := worker_calls w @ [c],
                    progress := foldl progress_after (progress w) (statuses st)\<rparr>)"
  by (simp add: await_stage_def foldl_logger_eq)

lemma worker_calls_await:
  "worker_calls (snd (await_stage c st w)) = worker_calls w @ [c]"
  by (simp add: await_stage_eq)

lemma bind_exn_cases:
  "bind_exn m f = (case fst m of Inl e \<Rightarrow> (Inl e, snd m) | Inr a \<Rightarrow> f a (snd m))"
  by (cases m) (simp add: bind_exn_def split: sum.splits)

lemma processImage_try_calls:
  "worker_calls (snd (processImage_try tw f w)) = worker_calls w @
     (case createWorker tw of Inl e \<Rightarrow> [CreateWorker] | Inr u0 \<Rightarrow>
      (case settles (load tw) of Inl e \<Rightarrow> [CreateWorker, Load] | Inr u1 \<Rightarrow>
      (case settles (loadLanguage tw ''eng'') of
         Inl e \<Rightarrow> [CreateWorker, Load, LoadLanguage ''eng'']
       | Inr u2 \<Rightarrow>
      (case settles (initialize tw ''eng'') of
         Inl e \<Rightarrow> [CreateWorker, Load, LoadLanguage ''eng'', Initialize ''eng'']
       | Inr u3 \<Rightarrow>
      (case settles (recognize tw f) of
         Inl e \<Rightarrow> [CreateWorker, Load, LoadLanguage ''eng'', Initialize ''eng'', Recognize]
       | Inr d \<Rightarrow>
           [CreateWorker, Load, LoadLanguage ''eng'', Initialize ''eng'', Recognize,
            Terminate])))))"
  by (simp add: processImage_try_def Let_def bind_exn_cases fst_await_stage worker_calls_await
           split: sum.splits)

lemma processImage_calls:
  "worker_calls (snd (processImage tw f w)) = worker_calls (snd (processImage_try tw f w))"
  by (simp add: processImage_result split: sum.splits)

lemma ocr_frame_refl: "ocr_frame w w"
  by (simp add: ocr_frame_def)

lemma ocr_frame_update:
  "ocr_frame w s \<Longrightarrow> ocr_frame w (s\<lparr>isProcessing := b\<rparr>)"
  "ocr_frame w s \<Longrightarrow> ocr_frame w (s\<lparr>ocr_error := e\<rparr>)"
  "ocr_frame w s \<Longrightarrow> ocr_frame w (s\<lparr>progress := p\<rparr>)"
  "ocr_frame w s \<Longrightarrow> ocr_frame w (s\<lparr>worker_calls := c\<rparr>)"
  by (simp_all add: ocr_frame_def)

lemma ocr_frame_await: "ocr_frame w s \<Longrightarrow> ocr_frame w (snd (await_stage c st s))"
  by (simp add: await_stage_eq ocr_frame_update)

lemma ocr_frame_bind:
  "ocr_frame w (snd m) \<Longrightarrow> (\<And>a s. ocr_frame w s \<Longrightarrow> ocr_frame w (snd (f a s)))
     \<Longrightarrow> ocr_frame w (snd (bind_exn m f))"
  by (cases m) (auto simp: bind_exn_def split: sum.splits)

lemma processImage_try_frame: "ocr_frame w (snd (processImage_try tw f w))"
  unfolding processImage_try_def Let_def
  by (intro ocr_frame_bind ocr_frame_await) (simp_all add: ocr_frame_update ocr_frame_refl)

lemma processImage_frame: "ocr_frame w (snd (processImage tw f w))"
  using processImage_try_frame[of w tw f]
  by (cases "processImage_try tw f w")
     (auto simp: processImage_def ocr_frame_update split: sum.splits)

lemma ocr_frame_fields:
  assumes "ocr_frame w w'"
  shows "conversationHistory w' = conversationHistory w"
    and "generate_calls w' = generate_calls w"
    and "submissions w' = submissions w"
    and "response w' = response w"
    and "now w' = now w"
proof -
  from assms have eq: "w'\<lparr>isProcessing := isProcessing w, ocr_error := ocr_error w,
      progress := progress w, worker_calls := worker_calls w\<rparr> = w"
    by (simp add: ocr_frame_def)
  show "conversationHistory w' = conversationHistory w"
    using arg_cong[OF eq, of conversationHistory] by simp
  show "generate_calls w' = generate_calls w"
    using arg_cong[OF eq, of generate_calls] by simp
  show "submissions w' = submissions w"
    using arg_cong[OF eq, of submissions] by simp
  show "response w' = response w"
    using arg_cong[OF eq, of response] by simp
  show "now w' = now w"
    using arg_cong[OF eq, of now] by simp
qed

text \<open>
  C2: the terminate step is executed on every exit path of \<open>processImage\<close>. On the
  code it is not: \<open>worker.terminate()\<close> stands in the \<open>try\<close> block after the
  recognition, so a failing step skips it. With the step \<open>load\<close> (and likewise
  \<open>loadLanguage\<close>, \<open>initialize\<close>, \<open>recognize\<close>) rejecting, the calls made on the worker
  end with the failed step and \<open>Terminate\<close> is not among them; only the run in which
  every step succeeds terminates the worker.
\<close>

theorem processImage_skips_terminate:
  "settles (load (sample_tesseract\<lparr>load := failing_stage\<rparr>)) = Inl (Error ''NetworkError'')
   \<and> worker_calls (snd (processImage (sample_tesseract\<lparr>load := failing_stage\<rparr>)
        ''notes.png'' initial_world))
     = [CreateWorker, Load]
   \<and> worker_calls (snd (processImage (sample_tesseract\<lparr>loadLanguage := (\<lambda>l. failing_stage)\<rparr>)
        ''notes.png'' initial_world))
     = [CreateWorker, Load, LoadLanguage ''eng'']
   \<and> worker_calls (snd (processImage (sample_tesseract\<lparr>initialize := (\<lambda>l. failing_stage)\<rparr>)
        ''notes.png'' initial_world))
     = [CreateWorker, Load, LoadLanguage ''eng'', Initialize ''eng'']
   \<and> worker_calls (snd (processImage (sample_tesseract\<lparr>recognize := (\<lambda>f. failing_stage)\<rparr>)
        ''notes.png'' initial_world))
     = [CreateWorker, Load, LoadLanguage ''eng'', Initialize ''eng'', Recognize]
   \<and> worker_calls (snd (processImage sample_tesseract ''notes.png'' initial_world))
     = [CreateWorker, Load, LoadLanguage ''eng'', Initialize ''eng'', Recognize, Terminate]"
  by code_simp

text \<open>
  C8: \<open>processImage\<close> never rejects (its promise is always fulfilled, with a result or
  with null), and after every call \<open>isProcessing\<close> is false. Whenever it returns null an
  error message has been recorded: the message of the exception that ended the \<open>try\<close>
  block when it is an \<open>Error\<close>, the generic message otherwise. It returns null whenever
  one of the worker's steps fails or the recognised text trims to nothing.
\<close>

theorem processImage_never_rejects:
  "(let r = processImage tw f w in
      (\<exists>res. fst r = Inr res)
    \<and> \<not> isProcessing (snd r)
    \<and> (fst r = Inr None \<longrightarrow> (\<exists>m. ocr_error (snd r) = Some m))
    \<and> (\<forall>e. fst (processImage_try tw f w) = Inl e \<longrightarrow>
          ocr_error (snd r)
            = Some (if instanceof_Error e then message e
                    else ''Failed to process handwritten text. Please try again.''))
    \<and> ((\<exists>e. createWorker tw = Inl e \<or> settles (load tw) = Inl e
              \<or> settles (loadLanguage tw ''eng'') = Inl e
              \<or> settles (initialize tw ''eng'') = Inl e
              \<or> settles (recognize tw f) = Inl e \<or> settles (terminate tw) = Inl e)
         \<or> (\<exists>d. settles (recognize tw f) = Inr d \<and> trim (data_text d) = [])
        \<longrightarrow> fst r = Inr None))"
proof (cases "fst (processImage_try tw f w)")
  case (Inl e)
  then show ?thesis
    unfolding Let_def processImage_result by simp
next
  case (Inr r)
  have "\<not> ((\<exists>e. createWorker tw = Inl e \<or> settles (load tw) = Inl e
              \<or> settles (loadLanguage tw ''eng'') = Inl e
              \<or> settles (initialize tw ''eng'') = Inl e
              \<or> settles (recognize tw f) = Inl e \<or> settles (terminate tw) = Inl e)
         \<or> (\<exists>d. settles (recognize tw f) = Inr d \<and> trim (data_text d) = []))"
    using processImage_try_fails[of tw f w] Inr by auto
  with Inr show ?thesis
    unfolding Let_def processImage_result by simp
qed

theorem processImage_never_rejects_witness:
  "settles (load (sample_tesseract\<lparr>load := failing_stage\<rparr>)) = Inl (Error ''NetworkError'')
   \<and> processImage (sample_tesseract\<lparr>load := failing_stage\<rparr>) ''notes.png'' initial_world
     = (Inr None,
        initial_world\<lparr>ocr_error := Some ''NetworkError'', worker_calls := [CreateWorker, Load]\<rparr>)
   \<and> processImage (sample_tesseract\<lparr>createWorker := Inl NonError\<rparr>) ''notes.png'' initial_world
     = (Inr None,
        initial_world\<lparr>ocr_error := Some ''Failed to process handwritten text. Please try again.'',
                       worker_calls := [CreateWorker]\<rparr>)
   \<and> fst (processImage sample_tesseract ''notes.png'' initial_world)
     = Inr (Some \<lparr>text = ''Hello World'', confidence = 427 / 10\<rparr>)
   \<and> \<not> isProcessing (snd (processImage sample_tesseract ''notes.png'' initial_world))"
proof -
  have e:
    "settles (load (sample_tesseract\<lparr>load := failing_stage\<rparr>)) = Inl (Error ''NetworkError'')
     \<and> processImage (sample_tesseract\<lparr>load := failing_stage\<rparr>) ''notes.png'' initial_world
       = (Inr None,
          initial_world\<lparr>ocr_error := Some ''NetworkError'', worker_calls := [CreateWorker, Load]\<rparr>)
     \<and> processImage (sample_tesseract\<lparr>createWorker := Inl NonError\<rparr>) ''notes.png'' initial_world
       = (Inr None,
          initial_world\<lparr>ocr_error := Some ''Failed to process handwritten text. Please try again.'',
                         worker_calls := [CreateWorker]\<rparr>)
     \<and> fst (processImage sample_tesseract ''notes.png'' initial_world)
       = Inr (Some \<lparr>text = ''Hello World'', confidence = 427 / 10\<rparr>)
     \<and> \<not> isProcessing (snd (processImage sample_tesseract ''notes.png'' initial_world))"
    by code_simp
  show ?thesis
    using processImage_never_rejects [where tw = "sample_tesseract\<lparr>load := failing_stage\<rparr>"
            and f = "''notes.png''" and w = initial_world]
          processImage_never_rejects [where tw = "sample_tesseract\<lparr>createWorker := Inl NonError\<rparr>"
            and f = "''notes.png''" and w = initial_world]
          e
    by simp
qed

subsection \<open>The response generator\<close>

lemma speakResponse_fields:
  "conversationHistory (speakResponse env t w) = conversationHistory w"
  "generate_calls (speakResponse env t w) = generate_calls w"
  "submissions (speakResponse env t w) = submissions w"
  by (simp_all add: speakResponse_def)

lemma vision_text_history:
  "conversationHistory (snd (vision_text env p i w)) = conversationHistory w"
  by (simp add: vision_text_def Let_def split: outcome.splits sum.splits)

lemma plain_text_history:
  "conversationHistory (snd (plain_text env p w)) = conversationHistory w"
  by (simp add: plain_text_def Let_def split: sum.splits)

lemma processAIResponse_cases:
  "processAIResponse env p i w =
     (let w3 = w\<lparr>generate_calls := generate_calls w @ [(p, i)], isLoading := True,
                  ai_error := None\<rparr>;
          m = (case i of Some j \<Rightarrow> vision_text env p j w3 | None \<Rightarrow> plain_text env p w3)
      in case fst m of
           Pending \<Rightarrow> (Pending, snd m)
         | Rejected e \<Rightarrow> (Rejected e, (snd m)\<lparr>isLoading := False\<rparr>)
         | Fulfilled t \<Rightarrow>
             (Fulfilled t,
              (if truthy t \<and> enableVoice (snd m) then speakResponse env t (snd m) else snd m)
                \<lparr>isLoading := False\<rparr>))"
  by (cases "case i of Some j \<Rightarrow> vision_text env p j (w\<lparr>generate_calls := generate_calls w @ [(p, i)], isLoading := True, ai_error := None\<rparr>) | None \<Rightarrow> plain_text env p (w\<lparr>generate_calls := generate_calls w @ [(p, i)], isLoading := True, ai_error := None\<rparr>)")
     (simp add: processAIResponse_def Let_def split: outcome.splits)

lemma processAIResponse_history:
  "conversationHistory (snd (processAIResponse env p i w)) = conversationHistory w"
  by (simp add: processAIResponse_cases Let_def speakResponse_fields vision_text_history
                plain_text_history split: outcome.splits option.splits)

lemma vision_text_calls:
  "generate_calls (snd (vision_text env p i w)) = generate_calls w"
  by (simp add: vision_text_def Let_def split: outcome.splits sum.splits)

lemma plain_text_calls:
  "generate_calls (snd (plain_text env p w)) = generate_calls w"
  by (simp add: plain_text_def Let_def split: sum.splits)

lemma processAIResponse_calls:
  "generate_calls (snd (processAIResponse env p i w)) = generate_calls w @ [(p, i)]"
  by (simp add: processAIResponse_cases Let_def speakResponse_fields vision_text_calls
                plain_text_calls split: outcome.splits option.splits)

lemma vision_text_submissions:
  "submissions (snd (vision_text env p i w)) =
     submissions w @
       (case imageData_of env i of
          Fulfilled d \<Rightarrow> [VisionRequest d (or_default p ''What's in this image?'')]
        | _ \<Rightarrow> [])"
  by (simp add: vision_text_def Let_def split: outcome.splits sum.splits)

lemma plain_text_submissions:
  "submissions (snd (plain_text env p w)) = submissions w @ [TextRequest p]"
  by (simp add: plain_text_def Let_def split: sum.splits)

lemma processAIResponse_submissions:
  "submissions (snd (processAIResponse env p i w)) =
     submissions w @
       (case i of
          None \<Rightarrow> [TextRequest p]
        | Some j \<Rightarrow>
            (case imageData_of env j of
               Fulfilled d \<Rightarrow> [VisionRequest d (or_default p ''What's in this image?'')]
             | _ \<Rightarrow> []))"
  by (simp add: processAIResponse_cases Let_def speakResponse_fields vision_text_submissions
                plain_text_submissions split: outcome.splits option.splits)

lemma vision_text_result:
  "fst (vision_text env p i w) =
     (case imageData_of env i of
        Pending \<Rightarrow> Pending
      | Rejected e \<Rightarrow> Rejected (Error ''Failed to analyze image'')
      | Fulfilled d \<Rightarrow>
          (case vision_generateContent env d (or_default p ''What's in this image?'') of
             Inl e \<Rightarrow> Rejected (Error ''Failed to analyze image'')
           | Inr t \<Rightarrow> Fulfilled t))"
  by (simp add: vision_text_def Let_def split: outcome.splits sum.splits)

lemma plain_text_result:
  "fst (plain_text env p w) =
     (case text_generateContent env p of Inl e \<Rightarrow> Rejected e | Inr t \<Rightarrow> Fulfilled t)"
  by (simp add: plain_text_def Let_def split: sum.splits)

lemma processAIResponse_result:
  "fst (processAIResponse env p i w) =
     (case i of
        None \<Rightarrow>
          (case text_generateContent env p of Inl e \<Rightarrow> Rejected e | Inr t \<Rightarrow> Fulfilled t)
      | Some j \<Rightarrow>
          (case imageData_of env j of
             Pending \<Rightarrow> Pending
           | Rejected e \<Rightarrow> Rejected (Error ''Failed to analyze image'')
           | Fulfilled d \<Rightarrow>
               (case vision_generateContent env d (or_default p ''What's in this image?'') of
                  Inl e \<Rightarrow> Rejected (Error ''Failed to analyze image'')
                | Inr t \<Rightarrow> Fulfilled t)))"
  by (simp add: processAIResponse_cases Let_def vision_text_result plain_text_result
           split: outcome.splits option.splits sum.splits)

text \<open>
  C7: for a call of \<open>processAIResponse\<close> with a video element, when a 2d context is
  available and the video is ready or becomes ready, what is handed to the vision model
  is the frame drawn over a canvas of 640 by 480 and encoded as JPEG at quality 0.8 (the
  part of the data URL after its comma), together with the prompt or its default: the
  call settles with the model's reply to exactly that payload and prompt, and the log
  of submissions grows by that request. When no context is available the call is
  rejected, when the video never becomes ready it stays pending, and in both cases
  nothing is submitted. For a call with an inline payload, that payload is handed over
  as it is: the call settles with the model's reply to exactly it and the prompt.
\<close>

theorem image_submission:
  "(getContext_2d env \<and> (2 \<le> readyState v \<or> loadeddata_fires env) \<longrightarrow>
      submissions (snd (processAIResponse env prompt (Some (VideoElement v)) w)) =
        submissions w @
          [VisionRequest
             \<lparr>data = index_opt (split_on CHR '',''
                        (toDataURL env \<lparr>width = 640, height = 480,
                                         drawn = Some (frame v, 0, 0, 640, 480)\<rparr>
                           ''image/jpeg'' (8 / 10))) 1,
              mimeType = ''image/jpeg''\<rparr>
             (or_default prompt ''What's in this image?'')])
   \<and> (\<not> (getContext_2d env \<and> (2 \<le> readyState v \<or> loadeddata_fires env)) \<longrightarrow>
      submissions (snd (processAIResponse env prompt (Some (VideoElement v)) w)) = submissions w)
   \<and> submissions (snd (processAIResponse env prompt (Some (InlineData d)) w)) =
        submissions w @ [VisionRequest d (or_default prompt ''What's in this image?'')]
   \<and> (getContext_2d env \<and> (2 \<le> readyState v \<or> loadeddata_fires env) \<longrightarrow>
      fst (processAIResponse env prompt (Some (VideoElement v)) w) =
        (case vision_generateContent env
                \<lparr>data = index_opt (split_on CHR '',''
                           (toDataURL env \<lparr>width = 640, height = 480,
                                            drawn = Some (frame v, 0, 0, 640, 480)\<rparr>
                              ''image/jpeg'' (8 / 10))) 1,
                 mimeType = ''image/jpeg''\<rparr>
                (or_default prompt ''What's in this image?'') of
           Inl e \<Rightarrow> Rejected (Error ''Failed to analyze image'')
         | Inr t \<Rightarrow> Fulfilled t))
   \<and> (\<not> getContext_2d env \<longrightarrow>
      fst (processAIResponse env prompt (Some (VideoElement v)) w)
        = Rejected (Error ''Failed to analyze image''))
   \<and> (getContext_2d env \<and> readyState v < 2 \<and> \<not> loadeddata_fires env \<longrightarrow>
      fst (processAIResponse env prompt (Some (VideoElement v)) w) = Pending)
   \<and> fst (processAIResponse env prompt (Some (InlineData d)) w) =
        (case vision_generateContent env d (or_default prompt ''What's in this image?'') of
           Inl e \<Rightarrow> Rejected (Error ''Failed to analyze image'')
         | Inr t \<Rightarrow> Fulfilled t)"
proof -
  have log:
    "(getContext_2d env \<and> (2 \<le> readyState v \<or> loadeddata_fires env) \<longrightarrow>
      submissions (snd (processAIResponse env prompt (Some (VideoElement v)) w)) =
        submissions w @
          [VisionRequest
             \<lparr>data = index_opt (split_on CHR '',''
                        (toDataURL env \<lparr>width = 640, height = 480,
                                         drawn = Some (frame v, 0, 0, 640, 480)\<rparr>
                           ''image/jpeg'' (8 / 10))) 1,
              mimeType = ''image/jpeg''\<rparr>
             (or_default prompt ''What's in this image?'')])
     \<and> (\<not> (getContext_2d env \<and> (2 \<le> readyState v \<or> loadeddata_fires env)) \<longrightarrow>
      submissions (snd (processAIResponse env prompt (Some (VideoElement v)) w)) = submissions w)
     \<and> submissions (snd (processAIResponse env prompt (Some (InlineData d)) w)) =
        submissions w @ [VisionRequest d (or_default prompt ''What's in this image?'')]"
    by (auto simp: processAIResponse_submissions imageData_of_def video_imageData_def Let_def
                   drawImage_def)
  have handed:
    "(getContext_2d env \<and> (2 \<le> readyState v \<or> loadeddata_fires env) \<longrightarrow>
      fst (processAIResponse env prompt (Some (VideoElement v)) w) =
        (case vision_generateContent env
                \<lparr>data = index_opt (split_on CHR '',''
                           (toDataURL env \<lparr>width = 640, height = 480,
                                            drawn = Some (frame v, 0, 0, 640, 480)\<rparr>
                              ''image/jpeg'' (8 / 10))) 1,
                 mimeType = ''image/jpeg''\<rparr>
                (or_default prompt ''What's in this image?'') of
           Inl e \<Rightarrow> Rejected (Error ''Failed to analyze image'')
         | Inr t \<Rightarrow> Fulfilled t))
     \<and> (\<not> getContext_2d env \<longrightarrow>
      fst (processAIResponse env prompt (Some (VideoElement v)) w)
        = Rejected (Error ''Failed to analyze image''))
     \<and> (getContext_2d env \<and> readyState v < 2 \<and> \<not> loadeddata_fires env \<longrightarrow>
      fst (processAIResponse env prompt (Some (VideoElement v)) w) = Pending)
     \<and> fst (processAIResponse env prompt (Some (InlineData d)) w) =
        (case vision_generateContent env d (or_default prompt ''What's in this image?'') of
           Inl e \<Rightarrow> Rejected (Error ''Failed to analyze image'')
         | Inr t \<Rightarrow> Fulfilled t)"
    by (auto simp: processAIResponse_result imageData_of_def video_imageData_def Let_def
                   drawImage_def)
  from log handed show ?thesis by (elim conjE, intro conjI) assumption+
qed

theorem image_submission_witness:
  "getContext_2d echo_ai \<and> 2 \<le> readyState sample_video
   \<and> processAIResponse echo_ai [] (Some (VideoElement sample_video)) initial_world
     = (Fulfilled ''/9j/4AAQ image/jpeg What's in this image?'',
        initial_world
          \<lparr>now := 3,
           generate_calls := [([], Some (VideoElement sample_video))],
           submissions := [VisionRequest \<lparr>data = Some ''/9j/4AAQ'', mimeType = ''image/jpeg''\<rparr>
                             ''What's in this image?''],
           spoken := [''/9j/4AAQ image/jpeg What's in this image?'']\<rparr>)
   \<and> \<not> getContext_2d (echo_ai\<lparr>getContext_2d := False\<rparr>)
   \<and> fst (processAIResponse (echo_ai\<lparr>getContext_2d := False\<rparr>) []
        (Some (VideoElement sample_video)) initial_world)
     = Rejected (Error ''Failed to analyze image'')
   \<and> submissions (snd (processAIResponse (echo_ai\<lparr>getContext_2d := False\<rparr>) []
        (Some (VideoElement sample_video)) initial_world)) = []
   \<and> readyState (sample_video\<lparr>readyState := 1\<rparr>) < 2
   \<and> \<not> loadeddata_fires (echo_ai\<lparr>loadeddata_fires := False\<rparr>)
   \<and> fst (processAIResponse (echo_ai\<lparr>loadeddata_fires := False\<rparr>) []
        (Some (VideoElement (sample_video\<lparr>readyState := 1\<rparr>))) initial_world) = Pending
   \<and> fst (processAIResponse echo_ai ''Describe it''
        (Some (InlineData \<lparr>data = Some ''iVBORw0KGgo='', mimeType = ''image/png''\<rparr>))
        initial_world)
     = Fulfilled ''iVBORw0KGgo= image/png Describe it''
   \<and> submissions (snd (processAIResponse echo_ai ''Describe it''
        (Some (InlineData \<lparr>data = Some ''iVBORw0KGgo='', mimeType = ''image/png''\<rparr>))
        initial_world))
     = [VisionRequest \<lparr>data = Some ''iVBORw0KGgo='', mimeType = ''image/png''\<rparr> ''Describe it'']"
proof -
  have e:
    "getContext_2d echo_ai \<and> 2 \<le> readyState sample_video
     \<and> processAIResponse echo_ai [] (Some (VideoElement sample_video)) initial_world
       = (Fulfilled ''/9j/4AAQ image/jpeg What's in this image?'',
          initial_world
            \<lparr>now := 3,
             generate_calls := [([], Some (VideoElement sample_video))],
             submissions := [VisionRequest \<lparr>data = Some ''/9j/4AAQ'', mimeType = ''image/jpeg''\<rparr>
                               ''What's in this image?''],
             spoken := [''/9j/4AAQ image/jpeg What's in this image?'']\<rparr>)
     \<and> \<not> getContext_2d (echo_ai\<lparr>getContext_2d := False\<rparr>)
     \<and> fst (processAIResponse (echo_ai\<lparr>getContext_2d := False\<rparr>) []
          (Some (VideoElement sample_video)) initial_world)
       = Rejected (Error ''Failed to analyze image'')
     \<and> submissions (snd (processAIResponse (echo_ai\<lparr>getContext_2d := False\<rparr>) []
          (Some (VideoElement sample_video)) initial_world)) = []
     \<and> readyState (sample_video\<lparr>readyState := 1\<rparr>) < 2
     \<and> \<not> loadeddata_fires (echo_ai\<lparr>loadeddata_fires := False\<rparr>)
     \<and> fst (processAIResponse (echo_ai\<lparr>loadeddata_fires := False\<rparr>) []
          (Some (VideoElement (sample_video\<lparr>readyState := 1\<rparr>))) initial_world) = Pending
     \<and> fst (processAIResponse echo_ai ''Describe it''
          (Some (InlineData \<lparr>data = Some ''iVBORw0KGgo='', mimeType = ''image/png''\<rparr>))
          initial_world)
       = Fulfilled ''iVBORw0KGgo= image/png Describe it''
     \<and> submissions (snd (processAIResponse echo_ai ''Describe it''
          (Some (InlineData \<lparr>data = Some ''iVBORw0KGgo='', mimeType = ''image/png''\<rparr>))
          initial_world))
       = [VisionRequest \<lparr>data = Some ''iVBORw0KGgo='', mimeType = ''image/png''\<rparr> ''Describe it'']"
    by code_simp
  show ?thesis
    using image_submission [where env = echo_ai and v = sample_video and prompt = "[]"
            and w = initial_world
            and d = "\<lparr>data = Some ''iVBORw0KGgo='', mimeType = ''image/png''\<rparr>"]
          image_submission [where env = "echo_ai\<lparr>getContext_2d := False\<rparr>"
            and v = sample_video and prompt = "[]" and w = initial_world
            and d = "\<lparr>data = Some ''iVBORw0KGgo='', mimeType = ''image/png''\<rparr>"]
          image_submission [where env = "echo_ai\<lparr>loadeddata_fires := False\<rparr>"
            and v = "sample_video\<lparr>readyState := 1\<rparr>" and prompt = "[]" and w = initial_world
            and d = "\<lparr>data = Some ''iVBORw0KGgo='', mimeType = ''image/png''\<rparr>"]
          image_submission [where env = echo_ai and v = sample_video and prompt = "''Describe it''"
            and w = initial_world
            and d = "\<lparr>data = Some ''iVBORw0KGgo='', mimeType = ''image/png''\<rparr>"]
          e
    by simp
qed

subsection \<open>The handlers of the page\<close>

lemma answer_received_history:
  "conversationHistory (answer_received t b w) =
     conversationHistory w @
       (if truthy t then [\<lparr>type = Answer, record_text = t, timestamp = now w\<rparr>] else [])"
  by (simp add: answer_received_def addToHistory_def resetTranscript_def Let_def)

lemma addToHistory_history:
  "conversationHistory (addToHistory k t w) =
     conversationHistory w @ [\<lparr>type = k, record_text = t, timestamp = now w\<rparr>]"
  by (simp add: addToHistory_def)

lemma handleAskQuestion_history:
  "conversationHistory (snd (handleAskQuestion env w)) =
     conversationHistory w @
       (if \<not> truthy (transcript w) then []
        else \<lparr>type = Question, record_text = transcript w, timestamp = now w\<rparr> #
          (case processAIResponse env (transcript w) None
                  (addToHistory Question (transcript w) w) of
             (Fulfilled t, w') \<Rightarrow>
               if truthy t then [\<lparr>type = Answer, record_text = t, timestamp = now w'\<rparr>] else []
           | _ \<Rightarrow> []))"
proof (cases "processAIResponse env (transcript w) None (addToHistory Question (transcript w) w)")
  case (Pair r w')
  have "conversationHistory w' = conversationHistory (addToHistory Question (transcript w) w)"
    using processAIResponse_history[of env "transcript w" None "addToHistory Question (transcript w) w"]
    by (simp add: Pair)
  then show ?thesis
    by (cases r) (simp_all add: handleAskQuestion_def Let_def Pair answer_received_history
                           addToHistory_history)
qed

lemma handleAnalyzeImage_history:
  "conversationHistory (snd (handleAnalyzeImage env w)) =
     conversationHistory w @
       (case webcam_video w of
          None \<Rightarrow> []
        | Some v \<Rightarrow>
            \<lparr>type = Question,
             record_text = or_default (transcript w) ''What do you see in this image?'',
             timestamp = now w\<rparr> #
            (case processAIResponse env
                    (or_default (transcript w) ''What do you see in this image?'')
                    (Some (VideoElement v))
                    (addToHistory Question
                       (or_default (transcript w) ''What do you see in this image?'') w) of
               (Fulfilled t, w') \<Rightarrow>
                 if truthy t then [\<lparr>type = Answer, record_text = t, timestamp = now w'\<rparr>]
                 else []
             | _ \<Rightarrow> []))"
proof (cases "webcam_video w")
  case None
  then show ?thesis by (simp add: handleAnalyzeImage_def)
next
  case (Some v)
  let ?q = "or_default (transcript w) ''What do you see in this image?''"
  obtain r w' where P: "processAIResponse env ?q (Some (VideoElement v)) (addToHistory Question ?q w) = (r, w')"
    by (cases "processAIResponse env ?q (Some (VideoElement v)) (addToHistory Question ?q w)")
  have "conversationHistory w' = conversationHistory (addToHistory Question ?q w)"
    using processAIResponse_history[of env ?q "Some (VideoElement v)" "addToHistory Question ?q w"]
    by (simp add: P)
  then show ?thesis
    by (cases r) (simp_all add: handleAnalyzeImage_def Let_def Some P answer_received_history
                           addToHistory_history)
qed

lemma catch_setError_history:
  "conversationHistory (snd (catch_setError declared msg r)) = conversationHistory (snd r)"
  by (cases r) (simp add: catch_setError_def setError_def split: outcome.splits)

lemma catch_setError_calls:
  "generate_calls (snd (catch_setError declared msg r)) = generate_calls (snd r)"
  "submissions (snd (catch_setError declared msg r)) = submissions (snd r)"
  by (cases r; simp add: catch_setError_def setError_def split: outcome.splits)+

lemma handleWhiteboardSubmit_history:
  "conversationHistory (snd (handleWhiteboardSubmit declared env imageData w)) =
     conversationHistory w @
       (case processAIResponse env whiteboard_prompt (Some (whiteboard_image imageData)) w of
          (Fulfilled t, w') \<Rightarrow>
            if truthy t then [\<lparr>type = Answer, record_text = t, timestamp = now w'\<rparr>] else []
        | _ \<Rightarrow> [])"
proof (cases "processAIResponse env whiteboard_prompt (Some (whiteboard_image imageData)) w")
  case (Pair r w')
  have "conversationHistory w' = conversationHistory w"
    using processAIResponse_history[of env whiteboard_prompt "Some (whiteboard_image imageData)" w]
    by (simp add: Pair)
  then show ?thesis
    by (cases r) (simp_all add: handleWhiteboardSubmit_def Pair catch_setError_history
                           answer_received_history)
qed

lemma handleFileUpload_try_appends:
  "\<exists>new. conversationHistory (snd (handleFileUpload_try declared toFixed1 env tw f w))
            = conversationHistory w @ new"
proof (cases declared)
  case False
  then show ?thesis by (simp add: handleFileUpload_try_def setError_def)
next
  case True
  let ?w1 = "w\<lparr>response := [], app_error := None\<rparr>"
  have h1: "conversationHistory (snd (processImage tw f ?w1)) = conversationHistory w"
    using ocr_frame_fields(1)[OF processImage_frame[where w = ?w1 and tw = tw and f = f]] by simp
  obtain r w2 where P: "processImage tw f ?w1 = (r, w2)"
    by (cases "processImage tw f ?w1")
  with h1 have h2: "conversationHistory w2 = conversationHistory w" by simp
  show ?thesis
  proof (cases r)
    case (Inl e)
    then show ?thesis using True P h2 by (simp add: handleFileUpload_try_def setError_def)
  next
    case (Inr ro)
    show ?thesis
    proof (cases ro)
      case None
      then show ?thesis using True P h2 Inr by (simp add: handleFileUpload_try_def setError_def)
    next
      case (Some res)
      let ?w4 = "addToHistory Question (processed_question res)
                   (w2\<lparr>response := recognized_message toFixed1 res\<rparr>)"
      obtain a w5 where Q: "processAIResponse env (handwriting_prompt (text res)) None ?w4 = (a, w5)"
        by (cases "processAIResponse env (handwriting_prompt (text res)) None ?w4")
      have "conversationHistory w5 = conversationHistory ?w4"
        using processAIResponse_history[of env "handwriting_prompt (text res)" None ?w4]
        by (simp add: Q)
      then show ?thesis
        using True P h2 Inr Some Q
        by (cases a) (simp_all add: handleFileUpload_try_def setError_def Let_def
                               answer_received_history addToHistory_history)
    qed
  qed
qed

lemma handleFileUpload_appends:
  "\<exists>new. conversationHistory (snd (handleFileUpload declared toFixed1 env tw fl w))
            = conversationHistory w @ new"
proof (cases fl)
  case None
  then show ?thesis by (simp add: handleFileUpload_def)
next
  case (Some f)
  then show ?thesis
    using handleFileUpload_try_appends[of declared toFixed1 env tw f w]
    by (simp add: handleFileUpload_def catch_setError_history)
qed

lemma handleFileUpload2_appends:
  "\<exists>new. conversationHistory (snd (handleFileUpload2 up env fl w))
            = conversationHistory w @ new"
proof (cases fl)
  case None
  then show ?thesis by (simp add: handleFileUpload2_def)
next
  case (Some f)
  let ?w5 = "w\<lparr>response := [], app_error := None, showAnalyzeButton := False,
               uploadedImage := Some (createObjectURL up f), isLocalLoading := True\<rparr>"
  show ?thesis
  proof (cases "fileToBase64 up f")
    case (Inl e)
    then show ?thesis
      using Some by (simp add: handleFileUpload2_def handleFileUpload2_try_def Let_def)
  next
    case (Inr b)
    obtain r w' where P:
      "processAIResponse env describe_prompt (Some (encoded_image up f b)) ?w5 = (r, w')"
      by (cases "processAIResponse env describe_prompt (Some (encoded_image up f b)) ?w5")
    have "conversationHistory w' = conversationHistory w"
      using processAIResponse_history[of env describe_prompt "Some (encoded_image up f b)" ?w5]
      by (simp add: P)
    then show ?thesis
      using Some Inr P
      by (cases r)
         (simp_all add: handleFileUpload2_def handleFileUpload2_try_def Let_def
                        description_received_def addToHistory_history)
  qed
qed

lemma handleAnalyzeNotes_appends:
  "\<exists>new. conversationHistory (snd (handleAnalyzeNotes up env w))
            = conversationHistory w @ new"
proof (cases "uploadedImage w")
  case None
  then show ?thesis by (simp add: handleAnalyzeNotes_def)
next
  case (Some url)
  let ?w1 = "w\<lparr>isLocalLoading := True\<rparr>"
  show ?thesis
  proof (cases "fetch_blob up url")
    case (Inl e)
    then show ?thesis
      using Some by (simp add: handleAnalyzeNotes_def handleAnalyzeNotes_try_def Let_def)
  next
    case blob: (Inr blob)
    show ?thesis
    proof (cases "fileToBase64 up blob")
      case (Inl e)
      then show ?thesis
        using Some blob by (simp add: handleAnalyzeNotes_def handleAnalyzeNotes_try_def Let_def)
    next
      case (Inr b)
      obtain r w' where P:
        "processAIResponse env notes_prompt (Some (encoded_image up blob b)) ?w1 = (r, w')"
        by (cases "processAIResponse env notes_prompt (Some (encoded_image up blob b)) ?w1")
      have "conversationHistory w' = conversationHistory w"
        using processAIResponse_history[of env notes_prompt "Some (encoded_image up blob b)" ?w1]
        by (simp add: P)
      then show ?thesis
        using Some blob Inr P
        by (cases r)
           (simp_all add: handleAnalyzeNotes_def handleAnalyzeNotes_try_def Let_def
                          answer_received_history)
    qed
  qed
qed

lemma perform_appends:
  "a \<noteq> ClearHistory \<Longrightarrow> \<exists>new. conversationHistory (perform a w) = conversationHistory w @ new"
proof (cases a)
  case (FileUpload declared toFixed1 env tw fl)
  then show ?thesis using handleFileUpload_appends[of declared toFixed1 env tw fl w] by simp
next
  case (ImageUpload up env fl)
  then show ?thesis using handleFileUpload2_appends[of up env fl w] by simp
next
  case (AnalyzeNotes up env)
  then show ?thesis using handleAnalyzeNotes_appends[of up env w] by simp
next
  case ErrorSynced
  then show ?thesis by (simp split: option.splits)
qed (simp_all add: handleAskQuestion_history handleAnalyzeImage_history
       handleWhiteboardSubmit_history handleQuizComplete_def addToHistory_history
       resetTranscript_def)

text \<open>
  C4: with an empty transcript \<open>handleAskQuestion\<close> is fulfilled (it does not throw),
  shows the voice placeholder \<open>Speak to ask a question...\<close> as the response and changes
  nothing else: \<open>processAIResponse\<close> is not called, nothing is submitted to a model and
  the history is as it was.
\<close>

theorem ask_empty_transcript:
  "transcript w = [] \<longrightarrow>
     handleAskQuestion env w = (Fulfilled (), w\<lparr>response := ''Speak to ask a question...''\<rparr>)
     \<and> fst (handleAskQuestion env w) = Fulfilled ()
     \<and> response (snd (handleAskQuestion env w)) = voice_placeholder
     \<and> generate_calls (snd (handleAskQuestion env w)) = generate_calls w
     \<and> submissions (snd (handleAskQuestion env w)) = submissions w
     \<and> conversationHistory (snd (handleAskQuestion env w)) = conversationHistory w"
  by (simp add: handleAskQuestion_def truthy_def voice_placeholder_def)

theorem ask_empty_transcript_witness:
  "transcript initial_world = []
   \<and> handleAskQuestion sample_ai initial_world
       = (Fulfilled (), initial_world\<lparr>response := ''Speak to ask a question...''\<rparr>)
   \<and> generate_calls (snd (handleAskQuestion sample_ai initial_world)) = []
   \<and> submissions (snd (handleAskQuestion sample_ai initial_world)) = []"
  using ask_empty_transcript [where w = initial_world and env = sample_ai]
  by (simp add: initial_world_def)

lemma successful_cycle_history:
  assumes "successful c w"
  shows "\<exists>t1 t2. conversationHistory (run_cycle c w) =
           conversationHistory w @
             [\<lparr>type = Question, record_text = cycle_question c, timestamp = t1\<rparr>,
              \<lparr>type = Answer, record_text = reply_text c w, timestamp = t2\<rparr>]"
proof (cases c)
  case (AskCycle t env)
  let ?w = "w\<lparr>transcript := t\<rparr>"
  from assms AskCycle have tr: "truthy t"
    by (auto simp: successful_def reply_text_def truthy_def split: if_splits)
  obtain r w' where P: "processAIResponse env t None (addToHistory Question t ?w) = (r, w')"
    by (cases "processAIResponse env t None (addToHistory Question t ?w)")
  from assms AskCycle tr P obtain x where x: "r = Fulfilled x" "truthy x" "reply_text c w = x"
    by (cases r) (auto simp: successful_def reply_text_def truthy_def)
  show ?thesis
    using AskCycle tr P x by (simp add: handleAskQuestion_history)
next
  case (VisualCycle t v env)
  let ?w = "w\<lparr>transcript := t, webcam_video := Some v\<rparr>"
  let ?q = "or_default t ''What do you see in this image?''"
  obtain r w' where P: "processAIResponse env ?q (Some (VideoElement v)) (addToHistory Question ?q ?w) = (r, w')"
    by (cases "processAIResponse env ?q (Some (VideoElement v)) (addToHistory Question ?q ?w)")
  from assms VisualCycle P obtain x where x: "r = Fulfilled x" "truthy x" "reply_text c w = x"
    by (cases r) (auto simp: successful_def reply_text_def truthy_def)
  show ?thesis
    using VisualCycle P x by (simp add: handleAnalyzeImage_history)
qed

lemma run_cycles_history:
  "all_successful cs w \<Longrightarrow>
     map (\<lambda>r. (type r, record_text r)) (conversationHistory (run_cycles cs w)) =
       map (\<lambda>r. (type r, record_text r)) (conversationHistory w)
         @ question_answer_pairs (map cycle_question cs) (replies cs w)"
proof (induction cs arbitrary: w)
  case Nil
  then show ?case by simp
next
  case (Cons c cs)
  from Cons.prems have s: "successful c w" and rest: "all_successful cs (run_cycle c w)"
    by simp_all
  from successful_cycle_history[OF s] obtain t1 t2 where
    h: "conversationHistory (run_cycle c w) =
           conversationHistory w @
             [\<lparr>type = Question, record_text = cycle_question c, timestamp = t1\<rparr>,
              \<lparr>type = Answer, record_text = reply_text c w, timestamp = t2\<rparr>]"
    by blast
  show ?case
    using Cons.IH[OF rest] h by simp
qed

lemma length_replies: "length (replies cs w) = length cs"
  by (induction cs arbitrary: w) simp_all

lemma length_question_answer_pairs:
  "length qs = length as \<Longrightarrow> length (question_answer_pairs qs as) = 2 * length qs"
  by (induction qs as rule: question_answer_pairs.induct) simp_all

text \<open>
  C5: every action on the page other than the reset leaves the records the history
  already had in place and unchanged, adding new ones at the end at most; the reset
  empties the history. After a run of cycles of \<open>handleAskQuestion\<close> and
  \<open>handleAnalyzeImage\<close> that are all successful, started from an empty history, the
  history has twice as many records as there were cycles: the question of each cycle
  followed by the generator's reply to it, cycle after cycle in the order of the calls.
\<close>

theorem history_append_only:
  "(a \<noteq> ClearHistory \<longrightarrow>
      (\<exists>new. conversationHistory (perform a w) = conversationHistory w @ new))
   \<and> conversationHistory (perform ClearHistory w) = []
   \<and> (all_successful cs w0 \<and> conversationHistory w0 = [] \<longrightarrow>
        length (conversationHistory (run_cycles cs w0)) = 2 * length cs
        \<and> map (\<lambda>r. (type r, record_text r)) (conversationHistory (run_cycles cs w0))
          = question_answer_pairs (map cycle_question cs) (replies cs w0))"
proof -
  have 1: "a \<noteq> ClearHistory \<longrightarrow>
      (\<exists>new. conversationHistory (perform a w) = conversationHistory w @ new)"
    using perform_appends by blast
  have 2: "conversationHistory (perform ClearHistory w) = []"
    by (simp add: clearHistory_def resetTranscript_def)
  have 3: "length (conversationHistory (run_cycles cs w0)) = 2 * length cs
        \<and> map (\<lambda>r. (type r, record_text r)) (conversationHistory (run_cycles cs w0))
          = question_answer_pairs (map cycle_question cs) (replies cs w0)"
    if h: "all_successful cs w0" "conversationHistory w0 = []"
  proof -
    have m: "map (\<lambda>r. (type r, record_text r)) (conversationHistory (run_cycles cs w0))
          = question_answer_pairs (map cycle_question cs) (replies cs w0)"
      using run_cycles_history[OF h(1)] h(2) by simp
    have "length (conversationHistory (run_cycles cs w0))
          = length (map (\<lambda>r. (type r, record_text r)) (conversationHistory (run_cycles cs w0)))"
      by simp
    also have "\<dots> = 2 * length cs"
      unfolding m using length_question_answer_pairs[of "map cycle_question cs" "replies cs w0"]
      by (simp add: length_replies)
    finally show ?thesis using m by simp
  qed
  from 1 2 3 show ?thesis by blast
qed

theorem history_append_only_witness:
  "all_successful sample_cycles initial_world
   \<and> conversationHistory initial_world = []
   \<and> length (conversationHistory (run_cycles sample_cycles initial_world)) = 4
   \<and> map (\<lambda>r. (type r, record_text r)) (conversationHistory (run_cycles sample_cycles initial_world))
     = [(Question, ''What is photosynthesis?''), (Answer, ''Plants make sugar from light.''),
        (Question, ''What do you see in this image?''), (Answer, ''A diagram of a leaf.'')]
   \<and> (QuizComplete 2 :: string action) \<noteq> ClearHistory
   \<and> conversationHistory (perform (QuizComplete 2 :: string action)
        (run_cycles sample_cycles initial_world))
     = conversationHistory (run_cycles sample_cycles initial_world)
        @ [\<lparr>type = Answer, record_text = ''Quiz completed! Score: 2'', timestamp = 6\<rparr>]
   \<and> conversationHistory (perform (ClearHistory :: string action)
        (run_cycles sample_cycles initial_world)) = []"
proof -
  have e:
    "all_successful sample_cycles initial_world
     \<and> conversationHistory initial_world = []
     \<and> length (conversationHistory (run_cycles sample_cycles initial_world)) = 4
     \<and> map (\<lambda>r. (type r, record_text r)) (conversationHistory (run_cycles sample_cycles initial_world))
       = [(Question, ''What is photosynthesis?''), (Answer, ''Plants make sugar from light.''),
          (Question, ''What do you see in this image?''), (Answer, ''A diagram of a leaf.'')]
     \<and> conversationHistory (perform (QuizComplete 2 :: string action)
          (run_cycles sample_cycles initial_world))
       = conversationHistory (run_cycles sample_cycles initial_world)
          @ [\<lparr>type = Answer, record_text = ''Quiz completed! Score: 2'', timestamp = 6\<rparr>]
     \<and> conversationHistory (perform (ClearHistory :: string action)
          (run_cycles sample_cycles initial_world)) = []"
    by code_simp
  show ?thesis
    using history_append_only [where a = "QuizComplete 2 :: string action"
            and w = "run_cycles sample_cycles initial_world"
            and cs = sample_cycles and ?w0.0 = initial_world]
          e
    by simp
qed

text \<open>
  C9: when the generator fulfils the request of \<open>handleWhiteboardSubmit\<close> with a text
  that is not empty, the handler is fulfilled and the history grows by exactly one
  record, an \<open>Answer\<close> with that text, and by no \<open>Question\<close>; in every other case the
  history stays as it was. A successful cycle of \<open>handleAskQuestion\<close> or
  \<open>handleAnalyzeImage\<close> grows the history by two records.
\<close>

theorem whiteboard_appends_one_answer:
  "(fst (processAIResponse env whiteboard_prompt (Some (whiteboard_image imageData)) w)
      = Fulfilled t \<and> truthy t \<longrightarrow>
      fst (handleWhiteboardSubmit declared env imageData w) = Fulfilled ()
      \<and> (\<exists>ts. conversationHistory (snd (handleWhiteboardSubmit declared env imageData w))
            = conversationHistory w @ [\<lparr>type = Answer, record_text = t, timestamp = ts\<rparr>])
      \<and> length (conversationHistory (snd (handleWhiteboardSubmit declared env imageData w)))
          = length (conversationHistory w) + 1)
   \<and> (\<not> (\<exists>x. fst (processAIResponse env whiteboard_prompt (Some (whiteboard_image imageData)) w)
              = Fulfilled x \<and> truthy x) \<longrightarrow>
      conversationHistory (snd (handleWhiteboardSubmit declared env imageData w))
        = conversationHistory w)
   \<and> (successful c w \<longrightarrow>
      length (conversationHistory (run_cycle c w)) = length (conversationHistory w) + 2)"
proof -
  obtain r w' where P: "processAIResponse env whiteboard_prompt (Some (whiteboard_image imageData)) w = (r, w')"
    by (cases "processAIResponse env whiteboard_prompt (Some (whiteboard_image imageData)) w")
  have a: "fst (handleWhiteboardSubmit declared env imageData w) = Fulfilled ()"
    if "r = Fulfilled t"
    using that P by (simp add: handleWhiteboardSubmit_def catch_setError_def)
  have c: "successful c w \<longrightarrow>
      length (conversationHistory (run_cycle c w)) = length (conversationHistory w) + 2"
    using successful_cycle_history[of c w] by auto
  show ?thesis
    using P a c
    by (cases r) (auto simp: handleWhiteboardSubmit_history)
qed

theorem whiteboard_appends_one_answer_witness:
  "fst (processAIResponse sample_ai whiteboard_prompt (Some (whiteboard_image sample_drawing))
          initial_world) = Fulfilled ''A diagram of a leaf.''
   \<and> truthy ''A diagram of a leaf.''
   \<and> conversationHistory (snd (handleWhiteboardSubmit False sample_ai sample_drawing initial_world))
     = [\<lparr>type = Answer, record_text = ''A diagram of a leaf.'', timestamp = 3\<rparr>]
   \<and> successful (AskCycle ''What is photosynthesis?'' sample_ai) initial_world
   \<and> length (conversationHistory
        (run_cycle (AskCycle ''What is photosynthesis?'' sample_ai) initial_world)) = 2
   \<and> conversationHistory (snd (handleWhiteboardSubmit False
          (sample_ai\<lparr>vision_generateContent := (\<lambda>d q. Inl (Error ''503''))\<rparr>)
          sample_drawing initial_world)) = []"
proof -
  have e:
    "fst (processAIResponse sample_ai whiteboard_prompt (Some (whiteboard_image sample_drawing))
            initial_world) = Fulfilled ''A diagram of a leaf.''
     \<and> truthy ''A diagram of a leaf.''
     \<and> conversationHistory (snd (handleWhiteboardSubmit False sample_ai sample_drawing initial_world))
       = [\<lparr>type = Answer, record_text = ''A diagram of a leaf.'', timestamp = 3\<rparr>]
     \<and> successful (AskCycle ''What is photosynthesis?'' sample_ai) initial_world
     \<and> length (conversationHistory
          (run_cycle (AskCycle ''What is photosynthesis?'' sample_ai) initial_world)) = 2
     \<and> conversationHistory (snd (handleWhiteboardSubmit False
            (sample_ai\<lparr>vision_generateContent := (\<lambda>d q. Inl (Error ''503''))\<rparr>)
            sample_drawing initial_world)) = []"
    by code_simp
  show ?thesis
    using whiteboard_appends_one_answer [where env = sample_ai and imageData = sample_drawing
            and w = initial_world and t = "''A diagram of a leaf.''" and declared = False
            and c = "AskCycle ''What is photosynthesis?'' sample_ai"]
          whiteboard_appends_one_answer [where
                env = "sample_ai\<lparr>vision_generateContent := (\<lambda>d q. Inl (Error ''503''))\<rparr>"
            and imageData = sample_drawing
            and w = initial_world and t = "''A diagram of a leaf.''" and declared = False
            and c = "AskCycle ''What is photosynthesis?'' sample_ai"]
          e
    by simp
qed

lemma handleFileUpload_no_result:
  assumes "fst (processImage tw f (w\<lparr>response := [], app_error := None\<rparr>)) = Inr None"
  shows "generate_calls (snd (handleFileUpload declared toFixed1 env tw (Some f) w)) = generate_calls w"
    and "submissions (snd (handleFileUpload declared toFixed1 env tw (Some f) w)) = submissions w"
    and "conversationHistory (snd (handleFileUpload declared toFixed1 env tw (Some f) w))
           = conversationHistory w"
proof -
  let ?w1 = "w\<lparr>response := [], app_error := None\<rparr>"
  have fr: "ocr_frame ?w1 (snd (processImage tw f ?w1))" by (rule processImage_frame)
  obtain w2 where P: "processImage tw f ?w1 = (Inr None, w2)"
    using assms by (cases "processImage tw f ?w1") simp
  from fr P have f2: "generate_calls w2 = generate_calls w" "submissions w2 = submissions w"
      "conversationHistory w2 = conversationHistory w"
    using ocr_frame_fields[of ?w1 w2] by simp_all
  have T: "snd (handleFileUpload_try declared toFixed1 env tw f w) =
             (if declared then w2 else w\<lparr>response := []\<rparr>)"
    using P by (simp add: handleFileUpload_try_def setError_def)
  show "generate_calls (snd (handleFileUpload declared toFixed1 env tw (Some f) w)) = generate_calls w"
    using T f2 by (simp add: handleFileUpload_def catch_setError_calls)
  show "submissions (snd (handleFileUpload declared toFixed1 env tw (Some f) w)) = submissions w"
    using T f2 by (simp add: handleFileUpload_def catch_setError_calls)
  show "conversationHistory (snd (handleFileUpload declared toFixed1 env tw (Some f) w))
           = conversationHistory w"
    using T f2 by (simp add: handleFileUpload_def catch_setError_history)
qed

text \<open>
  C3: when the text that recognition gives trims to nothing, \<open>processImage\<close> returns
  null with an error recorded (not a result with an empty text); the error is
  \<open>No text was detected in the image. Please try a clearer image.\<close> when the other
  steps of the worker succeed. In the cycle of \<open>handleFileUpload\<close> on that file
  \<open>processAIResponse\<close> is not called, nothing is submitted to a model and nothing is
  added to the history, whether or not \<open>setError\<close> is declared.
\<close>

theorem empty_text_is_failure:
  "settles (recognize tw f) = Inr d \<and> trim (data_text d) = [] \<longrightarrow>
     fst (processImage tw f w) = Inr None
     \<and> (\<exists>m. ocr_error (snd (processImage tw f w)) = Some m)
     \<and> (createWorker tw = Inr () \<and> settles (load tw) = Inr ()
          \<and> settles (loadLanguage tw ''eng'') = Inr ()
          \<and> settles (initialize tw ''eng'') = Inr () \<and> settles (terminate tw) = Inr ()
        \<longrightarrow> ocr_error (snd (processImage tw f w))
              = Some ''No text was detected in the image. Please try a clearer image.'')
     \<and> generate_calls (snd (handleFileUpload declared toFixed1 env tw (Some f) w))
         = generate_calls w
     \<and> submissions (snd (handleFileUpload declared toFixed1 env tw (Some f) w)) = submissions w
     \<and> conversationHistory (snd (handleFileUpload declared toFixed1 env tw (Some f) w))
         = conversationHistory w"
proof (intro impI)
  assume h: "settles (recognize tw f) = Inr d \<and> trim (data_text d) = []"
  have fails: "\<exists>e. fst (processImage_try tw f w') = Inl e" for w'
    using processImage_try_fails[of tw f w'] h by blast
  have null: "fst (processImage tw f w') = Inr None" for w'
    using fails[of w'] by (auto simp: processImage_result)
  have err: "\<exists>m. ocr_error (snd (processImage tw f w)) = Some m"
    using fails[of w] by (auto simp: processImage_result)
  have msg: "ocr_error (snd (processImage tw f w)) = Some no_text_message"
    if "createWorker tw = Inr () \<and> settles (load tw) = Inr ()
          \<and> settles (loadLanguage tw ''eng'') = Inr ()
          \<and> settles (initialize tw ''eng'') = Inr () \<and> settles (terminate tw) = Inr ()"
  proof -
    have "fst (processImage_try tw f w) = Inl (Error no_text_message)"
      using that h by (simp add: processImage_try_result)
    then show ?thesis
      by (simp add: processImage_result)
  qed
  show "fst (processImage tw f w) = Inr None
     \<and> (\<exists>m. ocr_error (snd (processImage tw f w)) = Some m)
     \<and> (createWorker tw = Inr () \<and> settles (load tw) = Inr ()
          \<and> settles (loadLanguage tw ''eng'') = Inr ()
          \<and> settles (initialize tw ''eng'') = Inr () \<and> settles (terminate tw) = Inr ()
        \<longrightarrow> ocr_error (snd (processImage tw f w))
              = Some ''No text was detected in the image. Please try a clearer image.'')
     \<and> generate_calls (snd (handleFileUpload declared toFixed1 env tw (Some f) w))
         = generate_calls w
     \<and> submissions (snd (handleFileUpload declared toFixed1 env tw (Some f) w)) = submissions w
     \<and> conversationHistory (snd (handleFileUpload declared toFixed1 env tw (Some f) w))
         = conversationHistory w"
    using null[of w] err msg handleFileUpload_no_result[OF null, of declared toFixed1 env]
    by (simp add: no_text_message_def)
qed

theorem empty_text_is_failure_witness:
  "settles (recognize (sample_tesseract\<lparr>recognize := (\<lambda>f. blank_page)\<rparr>) ''notes.png'')
     = Inr \<lparr>data_text = ''  '' @ [CHR 0x0A], data_confidence = 0\<rparr>
   \<and> trim (''  '' @ [CHR 0x0A]) = []
   \<and> processImage (sample_tesseract\<lparr>recognize := (\<lambda>f. blank_page)\<rparr>) ''notes.png'' initial_world
     = (Inr None,
        initial_world\<lparr>progress := 100,
          ocr_error := Some ''No text was detected in the image. Please try a clearer image.'',
          worker_calls := [CreateWorker, Load, LoadLanguage ''eng'', Initialize ''eng'',
                           Recognize, Terminate]\<rparr>)
   \<and> generate_calls (snd (handleFileUpload True (\<lambda>c. ''0.0'') sample_ai
        (sample_tesseract\<lparr>recognize := (\<lambda>f. blank_page)\<rparr>) (Some ''notes.png'') initial_world))
     = []
   \<and> generate_calls (snd (handleFileUpload True (\<lambda>c. ''42.7'') sample_ai
        sample_tesseract (Some ''notes.png'') initial_world))
     = [(handwriting_prompt ''Hello World'', None)]"
proof -
  have e:
    "settles (recognize (sample_tesseract\<lparr>recognize := (\<lambda>f. blank_page)\<rparr>) ''notes.png'')
       = Inr \<lparr>data_text = ''  '' @ [CHR 0x0A], data_confidence = 0\<rparr>
     \<and> trim (''  '' @ [CHR 0x0A]) = []
     \<and> processImage (sample_tesseract\<lparr>recognize := (\<lambda>f. blank_page)\<rparr>) ''notes.png'' initial_world
       = (Inr None,
          initial_world\<lparr>progress := 100,
            ocr_error := Some ''No text was detected in the image. Please try a clearer image.'',
            worker_calls := [CreateWorker, Load, LoadLanguage ''eng'', Initialize ''eng'',
                             Recognize, Terminate]\<rparr>)
     \<and> generate_calls (snd (handleFileUpload True (\<lambda>c. ''0.0'') sample_ai
          (sample_tesseract\<lparr>recognize := (\<lambda>f. blank_page)\<rparr>) (Some ''notes.png'') initial_world))
       = []
     \<and> generate_calls (snd (handleFileUpload True (\<lambda>c. ''42.7'') sample_ai
          sample_tesseract (Some ''notes.png'') initial_world))
       = [(handwriting_prompt ''Hello World'', None)]"
    by code_simp
  show ?thesis
    using empty_text_is_failure [where tw = "sample_tesseract\<lparr>recognize := (\<lambda>f. blank_page)\<rparr>"
            and f = "''notes.png''"
            and d = "\<lparr>data_text = ''  '' @ [CHR 0x0A], data_confidence = 0\<rparr>"
            and w = initial_world and declared = True and ?toFixed1.0 = "\<lambda>c. ''0.0''"
            and env = sample_ai]
          e
    by simp
qed

end
